theory Spec2Isabelle
  imports Complex_Main "HOL-Library.AList"
begin

text \<open>
  The schema-matching and merge engine of the repository: the Jaccard similarity of
  \<^verbatim>\<open>text-utils\<close>, the type detection of \<^verbatim>\<open>file-utils\<close>, the mapping validation of
  \<^verbatim>\<open>column-mapping\<close>, and the transformer and merger of the data-merging module.
  Each function of the source is a function of the same name here; a loop is a
  \<open>fold\<close> over the list it runs through, a \<^verbatim>\<open>Map\<close> is an association list in
  insertion order or a partial function, and a thrown exception is a value.
\<close>

section \<open>The ECMAScript values and library calls the engine relies on\<close>

text \<open>
  A cell of a parsed row has the TypeScript type \<^verbatim>\<open>string | number | Date | null\<close>.
  Reading a row past its end (\<^verbatim>\<open>row[index]\<close> on a short row) yields \<^verbatim>\<open>undefined\<close>,
  which the code then carries along as a cell, so it is a constructor of its own.
  The type \<open>'n\<close> stands for the ECMAScript numbers (compared as \<^verbatim>\<open>Set\<close> does, so
  that \<open>NaN\<close> equals itself and the two zeros coincide), the type \<open>'d\<close> for \<^verbatim>\<open>Date\<close>
  objects (compared by identity, as \<^verbatim>\<open>Set\<close> and \<^verbatim>\<open>===\<close> do).
\<close>

datatype ('n, 'd) cell = CNull | CUndefined | CStr string | CNum 'n | CDate 'd

text \<open>A thrown \<^verbatim>\<open>Error\<close> is the value \<open>Inl (Error message)\<close> of a sum type.\<close>

datatype js_error = Error string

fun message :: "js_error \<Rightarrow> string" where
  "message (Error m) = m"

text \<open>
  The library calls made by the code (the ECMAScript built-ins and the two functions
  of \<^verbatim>\<open>date-fns\<close>) are not part of the repository; they are the fields of a record
  that every function depending on them takes as its first argument.
\<close>

record ('n, 'd) runtime =
  num_String :: "'n \<Rightarrow> string"                \<comment> \<open>\<^verbatim>\<open>String(n)\<close>\<close>
  num_falsy :: "'n \<Rightarrow> bool"                   \<comment> \<open>\<^verbatim>\<open>!n\<close>: zero or NaN\<close>
  num_isFinite :: "'n \<Rightarrow> bool"                \<comment> \<open>neither NaN nor an infinity\<close>
  num_isNaN :: "'n \<Rightarrow> bool"                   \<comment> \<open>\<^verbatim>\<open>isNaN(n)\<close>\<close>
  num_two :: "'n"                              \<comment> \<open>the literal \<^verbatim>\<open>2\<close>\<close>
  num_toFixed :: "'n \<Rightarrow> 'n \<Rightarrow> js_error + string"  \<comment> \<open>\<^verbatim>\<open>n.toFixed(d)\<close>, a RangeError for a bad \<open>d\<close>\<close>
  Number :: "string \<Rightarrow> 'n"                    \<comment> \<open>\<^verbatim>\<open>Number(s)\<close>\<close>
  parseFloat :: "string \<Rightarrow> 'n"                \<comment> \<open>\<^verbatim>\<open>parseFloat(s)\<close>\<close>
  date_String :: "'d \<Rightarrow> string"               \<comment> \<open>\<^verbatim>\<open>String(d)\<close>\<close>
  date_toJSON :: "'d \<Rightarrow> string option"        \<comment> \<open>\<^verbatim>\<open>d.toJSON()\<close>, \<open>None\<close> for an invalid date\<close>
  json_quote :: "string \<Rightarrow> string"            \<comment> \<open>\<^verbatim>\<open>JSON.stringify(s)\<close> of a string\<close>
  toUpperCase :: "string \<Rightarrow> string"
  toLowerCase :: "string \<Rightarrow> string"
  localeCompare :: "string \<Rightarrow> string \<Rightarrow> int"  \<comment> \<open>\<^verbatim>\<open>a.localeCompare(b)\<close>\<close>
  format :: "'d \<Rightarrow> string \<Rightarrow> js_error + string" \<comment> \<open>\<^verbatim>\<open>format\<close> of date-fns, a RangeError for an invalid date\<close>
  parseISO :: "string \<Rightarrow> js_error + 'd"       \<comment> \<open>\<^verbatim>\<open>parseISO\<close> of date-fns\<close>

text \<open>\<^verbatim>\<open>row[index]\<close>: \<^verbatim>\<open>undefined\<close> past the end of the row.\<close>

definition cell_at :: "('n, 'd) cell list \<Rightarrow> nat \<Rightarrow> ('n, 'd) cell" where
  "cell_at row index = (if index < length row then row ! index else CUndefined)"

text \<open>\<^verbatim>\<open>String(value)\<close> of a cell.\<close>

fun js_String :: "('n, 'd) runtime \<Rightarrow> ('n, 'd) cell \<Rightarrow> string" where
  "js_String rt CNull = ''null''"
| "js_String rt CUndefined = ''undefined''"
| "js_String rt (CStr s) = s"
| "js_String rt (CNum n) = num_String rt n"
| "js_String rt (CDate d) = date_String rt d"

text \<open>Truthiness of a cell: \<^verbatim>\<open>null\<close>, \<^verbatim>\<open>undefined\<close>, the empty string, zero and NaN are falsy;
  every \<^verbatim>\<open>Date\<close> object is truthy.\<close>

fun truthy :: "('n, 'd) runtime \<Rightarrow> ('n, 'd) cell \<Rightarrow> bool" where
  "truthy rt CNull = False"
| "truthy rt CUndefined = False"
| "truthy rt (CStr s) = (s \<noteq> [])"
| "truthy rt (CNum n) = (\<not> num_falsy rt n)"
| "truthy rt (CDate d) = True"

text \<open>
  \<^verbatim>\<open>JSON.stringify(row)\<close> of an array of cells: the elements, comma-separated, in
  brackets; \<^verbatim>\<open>null\<close>, \<^verbatim>\<open>undefined\<close>, a number that is not finite and an invalid date
  all print as \<^verbatim>\<open>null\<close>; a date prints as the quoted string of its \<^verbatim>\<open>toJSON\<close>.
\<close>

fun json_cell :: "('n, 'd) runtime \<Rightarrow> ('n, 'd) cell \<Rightarrow> string" where
  "json_cell rt CNull = ''null''"
| "json_cell rt CUndefined = ''null''"
| "json_cell rt (CStr s) = json_quote rt s"
| "json_cell rt (CNum n) = (if num_isFinite rt n then num_String rt n else ''null'')"
| "json_cell rt (CDate d) = (case date_toJSON rt d of None \<Rightarrow> ''null'' | Some s \<Rightarrow> json_quote rt s)"

fun join_comma :: "string list \<Rightarrow> string" where
  "join_comma [] = []"
| "join_comma [s] = s"
| "join_comma (s # t # ss) = s @ '','' @ join_comma (t # ss)"

definition JSON_stringify :: "('n, 'd) runtime \<Rightarrow> ('n, 'd) cell list \<Rightarrow> string" where
  "JSON_stringify rt row = ''['' @ join_comma (map (json_cell rt) row) @ '']''"

text \<open>
  \<^verbatim>\<open>new Set(xs)\<close>: the distinct elements in the order of their first occurrence;
  its \<^verbatim>\<open>size\<close> is the length of that list.
\<close>

definition Set_add :: "'a \<Rightarrow> 'a list \<Rightarrow> 'a list" where
  "Set_add x s = (if x \<in> set s then s else s @ [x])"

definition new_Set :: "'a list \<Rightarrow> 'a list" where
  "new_Set xs = fold Set_add xs []"

text \<open>
  \<^verbatim>\<open>Array.prototype.sort\<close> with a comparator is stable; for a comparator that is a
  total preorder the result is the one stable insertion produces.
\<close>

fun insert_by :: "('a \<Rightarrow> 'a \<Rightarrow> int) \<Rightarrow> 'a \<Rightarrow> 'a list \<Rightarrow> 'a list" where
  "insert_by cmp x [] = [x]"
| "insert_by cmp x (y # ys) = (if cmp x y \<le> 0 then x # y # ys else y # insert_by cmp x ys)"

definition sort_by :: "('a \<Rightarrow> 'a \<Rightarrow> int) \<Rightarrow> 'a list \<Rightarrow> 'a list" where
  "sort_by cmp xs = foldr (insert_by cmp) xs []"

text \<open>\<^verbatim>\<open>xs.indexOf(x)\<close>: the first position of \<open>x\<close>; \<open>None\<close> stands for \<open>-1\<close>.\<close>

fun indexOf :: "'a list \<Rightarrow> 'a \<Rightarrow> nat option" where
  "indexOf [] x = None"
| "indexOf (y # ys) x = (if y = x then Some 0 else map_option Suc (indexOf ys x))"

text \<open>\<^verbatim>\<open>xs.slice(0, m)\<close>: a negative \<open>m\<close> counts from the end.\<close>

definition slice0 :: "'a list \<Rightarrow> int \<Rightarrow> 'a list" where
  "slice0 xs m = (if m < 0 then take (nat (int (length xs) + m)) xs else take (nat m) xs)"

text \<open>The decimal digits of a length, for the template strings.\<close>

fun digits :: "nat \<Rightarrow> string" where
  "digits n = (if n < 10 then [char_of (48 + n)] else digits (n div 10) @ [char_of (48 + n mod 10)])"

declare digits.simps [simp del]

text \<open>
  \<^verbatim>\<open>counts.set(key, (counts.get(key) || 0) + 1)\<close> on a \<^verbatim>\<open>Map\<close> kept in insertion
  order: \<^verbatim>\<open>set\<close> on a key that is present replaces its value and keeps its place.
\<close>

definition increment :: "'k \<Rightarrow> ('k \<times> nat) list \<Rightarrow> ('k \<times> nat) list" where
  "increment key counts =
     AList.update key ((case map_of counts key of None \<Rightarrow> 0 | Some c \<Rightarrow> c) + 1) counts"

text \<open>Running a list of computations that may throw: the first error wins.\<close>

fun sequence :: "(js_error + 'a) list \<Rightarrow> js_error + 'a list" where
  "sequence [] = Inr []"
| "sequence (Inl e # rs) = Inl e"
| "sequence (Inr x # rs) = (case sequence rs of Inl e \<Rightarrow> Inl e | Inr xs \<Rightarrow> Inr (x # xs))"

section \<open>Text utilities\<close>

text \<open>
  \<^verbatim>\<open>jaccardSimilarity\<close>. The result is the quotient of two array sizes; as a
  double it is the correctly rounded rational, and the two values the property is
  about, \<open>0\<close> and \<open>1\<close>, are exact, so the quotient is taken in the rationals.
\<close>

definition jaccardSimilarity :: "string list \<Rightarrow> string list \<Rightarrow> rat" where
  "jaccardSimilarity words1 words2 =
    (let set1 = new_Set words1;
         set2 = new_Set words2;
         intersection = new_Set (filter (\<lambda>x. x \<in> set set2) set1);
         union = new_Set (set1 @ set2)
     in if length union = 0 then 0
        else of_nat (length intersection) / of_nat (length union))"

section \<open>The data model\<close>

datatype DataType = TString | TNumber | TDate | TBoolean | TMixed | TUnknown

text \<open>
  \<^verbatim>\<open>ColumnType\<close>. The confidence is a double in the source; it only ever holds \<open>0\<close>,
  \<open>0.5\<close>, \<open>1.0\<close> and quotients of two array lengths, and it is compared with \<open>0.8\<close>
  only. For lengths below \<open>2^50\<close> the rounded quotient is below the double \<open>0.8\<close>
  exactly when the rational quotient is below \<open>4/5\<close>, so the field is a rational.
\<close>

record ('n, 'd) ColumnType =
  ct_name :: string
  ct_type :: DataType
  confidence :: rat
  samples :: "('n, 'd) cell list"
  nullCount :: int
  uniqueCount :: nat

record ('n, 'd) ParsedData =
  pd_headers :: "string list"
  pd_rows :: "('n, 'd) cell list list"
  pd_rowCount :: nat
  pd_columnTypes :: "('n, 'd) ColumnType list"

text \<open>
  \<^verbatim>\<open>ProcessedFile\<close>: of the fields only \<^verbatim>\<open>id\<close> and \<^verbatim>\<open>parsedData\<close> are read. A file whose
  processing failed carries no \<^verbatim>\<open>parsedData\<close> (\<^verbatim>\<open>processFile\<close> returns it so, and every
  reader tests for it), hence the option.
\<close>

record ('n, 'd) ProcessedFile =
  file_id :: string
  parsedData :: "('n, 'd) ParsedData option"

datatype Transform = Tnone | Uppercase | Lowercase | Date_format | Number_format

text \<open>The two entries of \<^verbatim>\<open>transformParams\<close> that are read, typed as the source's casts state.\<close>

record 'n TransformParams =
  tp_format :: "string option"
  tp_decimals :: "'n option"

record 'n MappingEntry =
  sourceColumn :: string
  targetColumn :: string
  transform :: "Transform option"
  transformParams :: "'n TransformParams option"

datatype JoinType = Inner | Left | Right | Full

record 'n ColumnMapping =
  mapping_id :: string
  sourceFileId :: string
  targetFileId :: "string option"
  mappings :: "'n MappingEntry list"
  cm_joinType :: "JoinType option"
  cm_joinKey :: "string option"

datatype DuplicateStrategy = Keep_first | Keep_last | Merge_values

text \<open>\<^verbatim>\<open>MergeOptions\<close>; the row limit is an integer.\<close>

record MergeOptions =
  joinType :: JoinType
  joinKey :: "string option"
  handleDuplicatesOpt :: DuplicateStrategy
  validateTypes :: bool
  maxRows :: "int option"

record ('n, 'd) ProcessedDataset =
  ds_id :: string
  ds_name :: string
  sourceFiles :: "string list"
  ds_headers :: "string list"
  ds_data :: "(string \<rightharpoonup> ('n, 'd) cell) list"
  ds_columnTypes :: "('n, 'd) ColumnType list"
  createdAt :: 'd
  ds_rowCount :: nat

record MergeStats =
  totalRows :: int
  mergedRows :: int
  droppedRows :: int
  duplicateRows :: int
  nullValues :: int

record ('n, 'd) MergeResult =
  dataset :: "('n, 'd) ProcessedDataset"
  stats :: MergeStats
  warnings :: "string list"
  errors :: "string list"

text \<open>The two readings of the clock that \<^verbatim>\<open>mergeFiles\<close> makes: \<^verbatim>\<open>Date.now()\<close> and \<^verbatim>\<open>new Date()\<close>.\<close>

record ('n, 'd) clock =
  Date_now :: 'n
  new_Date :: 'd

section \<open>Type detection at parse time (\<^verbatim>\<open>detectColumnTypes\<close> of file-utils)\<close>

definition columnData :: "('n, 'd) cell list list \<Rightarrow> nat \<Rightarrow> ('n, 'd) cell list" where
  "columnData rows index = filter (\<lambda>cell. cell \<noteq> CNull) (map (\<lambda>row. cell_at row index) rows)"

fun is_string :: "('n, 'd) cell \<Rightarrow> bool" where
  "is_string (CStr s) = True"
| "is_string c = False"

fun is_number :: "('n, 'd) cell \<Rightarrow> bool" where
  "is_number (CNum n) = True"
| "is_number c = False"

fun is_date :: "('n, 'd) cell \<Rightarrow> bool" where
  "is_date (CDate d) = True"
| "is_date c = False"

text \<open>
  \<^verbatim>\<open>typeCounts\<close>, as \<^verbatim>\<open>Object.entries\<close> lists it. No cell is a boolean, so that count
  stays \<open>0\<close>; an \<^verbatim>\<open>undefined\<close> cell is counted under no type.
\<close>

definition typeCounts :: "('n, 'd) cell list \<Rightarrow> (DataType \<times> nat) list" where
  "typeCounts cells =
     [(TString, length (filter is_string cells)),
      (TNumber, length (filter is_number cells)),
      (TDate, length (filter is_date cells)),
      (TBoolean, 0)]"

definition dominant :: "nat \<Rightarrow> (DataType \<times> nat) list \<Rightarrow> DataType \<times> nat" where
  "dominant stringCount counts =
     fold (\<lambda>(type, count) (dominantType, maxCount).
             if count > maxCount then (type, count) else (dominantType, maxCount))
          counts (TString, stringCount)"

definition detectColumn :: "('n, 'd) cell list list \<Rightarrow> string \<Rightarrow> nat \<Rightarrow> ('n, 'd) ColumnType" where
  "detectColumn rows header index =
    (let cells = columnData rows index;
         (dominantType, maxCount) = dominant (length (filter is_string cells)) (typeCounts cells);
         conf = (if length cells > 0 then of_nat maxCount / of_nat (length cells) else 0);
         (dominantType, conf) =
            (if conf < 4 / 5 \<and> length cells > 5 then (TMixed, 1 / 2) else (dominantType, conf))
     in \<lparr> ct_name = header, ct_type = dominantType, confidence = conf,
          samples = take 10 cells,
          nullCount = int (length rows) - int (length cells),
          uniqueCount = length (new_Set cells) \<rparr>)"

definition detectColumnTypes ::
    "string list \<Rightarrow> ('n, 'd) cell list list \<Rightarrow> ('n, 'd) ColumnType list" where
  "detectColumnTypes headers rows =
     map (\<lambda>(header, index). detectColumn rows header index) (zip headers [0..<length headers])"

section \<open>Mapping validation (\<^verbatim>\<open>MappingGenerator.validateMapping\<close>)\<close>

definition dq :: string where
  "dq = [CHR 0x22]"

text \<open>The \<^verbatim>\<open>Map\<close> of how often each target column is mapped, in insertion order.\<close>

definition targetColumnCounts :: "'n MappingEntry list \<Rightarrow> (string \<times> nat) list" where
  "targetColumnCounts ms = fold (\<lambda>m counts. increment (targetColumn m) counts) ms []"

definition validateMapping ::
    "'n ColumnMapping \<Rightarrow> ('n, 'd) ProcessedFile \<Rightarrow> ('n, 'd) ProcessedFile option \<Rightarrow> string list" where
  "validateMapping mapping sourceFile targetFile =
    (case parsedData sourceFile of
       None \<Rightarrow> [''Source file has no parsed data'']
     | Some spd \<Rightarrow>
        (let sourceColumns = pd_headers spd;
             errors1 = map (\<lambda>m. ''Source column '' @ dq @ sourceColumn m @ dq @ '' does not exist in file'')
                         (filter (\<lambda>m. sourceColumn m \<notin> set sourceColumns) (mappings mapping));
             errors2 = (case targetFile of
                          None \<Rightarrow> []
                        | Some tf \<Rightarrow>
                           (case parsedData tf of
                              None \<Rightarrow> []
                            | Some tpd \<Rightarrow>
                               map (\<lambda>m. ''Target column '' @ dq @ targetColumn m @ dq @ '' does not exist in target file'')
                                   (filter (\<lambda>m. targetColumn m \<notin> set (pd_headers tpd)) (mappings mapping))));
             errors3 = map (\<lambda>(column, count). ''Target column '' @ dq @ column @ dq @ '' is mapped multiple times'')
                         (filter (\<lambda>(column, count). count > 1) (targetColumnCounts (mappings mapping)))
         in errors1 @ errors2 @ errors3))"

section \<open>The data transformer (\<^verbatim>\<open>DataTransformer\<close>)\<close>

definition formatString :: "'n TransformParams option \<Rightarrow> string" where
  "formatString params =
    (case params of
       None \<Rightarrow> ''yyyy-MM-dd''
     | Some p \<Rightarrow> (case tp_format p of
                    None \<Rightarrow> ''yyyy-MM-dd''
                  | Some f \<Rightarrow> if f = [] then ''yyyy-MM-dd'' else f))"

definition decimals :: "('n, 'd) runtime \<Rightarrow> 'n TransformParams option \<Rightarrow> 'n" where
  "decimals rt params =
    (case params of
       None \<Rightarrow> num_two rt
     | Some p \<Rightarrow> (case tp_decimals p of
                    None \<Rightarrow> num_two rt
                  | Some k \<Rightarrow> if num_falsy rt k then num_two rt else k))"

text \<open>\<^verbatim>\<open>Number(n.toFixed(decimals))\<close>; \<^verbatim>\<open>toFixed\<close> throws outside its range of digits.\<close>

definition roundTo :: "('n, 'd) runtime \<Rightarrow> 'n \<Rightarrow> 'n \<Rightarrow> js_error + ('n, 'd) cell" where
  "roundTo rt n k = (case num_toFixed rt n k of Inl e \<Rightarrow> Inl e | Inr s \<Rightarrow> Inr (CNum (Number rt s)))"

fun applyTransformation ::
    "('n, 'd) runtime \<Rightarrow> ('n, 'd) cell \<Rightarrow> Transform \<Rightarrow> 'n TransformParams option
       \<Rightarrow> js_error + ('n, 'd) cell" where
  "applyTransformation rt CNull t params = Inr CNull"
| "applyTransformation rt v Uppercase params = Inr (CStr (toUpperCase rt (js_String rt v)))"
| "applyTransformation rt v Lowercase params = Inr (CStr (toLowerCase rt (js_String rt v)))"
| "applyTransformation rt (CDate d) Date_format params =
     (case format rt d (formatString params) of Inl e \<Rightarrow> Inl e | Inr s \<Rightarrow> Inr (CStr s))"
| "applyTransformation rt (CStr s) Date_format params =
     (case parseISO rt s of
        Inl e \<Rightarrow> Inr (CStr s)
      | Inr d \<Rightarrow> (case format rt d (formatString params) of
                    Inl e \<Rightarrow> Inr (CStr s)
                  | Inr r \<Rightarrow> Inr (CStr r)))"
| "applyTransformation rt v Date_format params = Inr (CStr (js_String rt v))"
| "applyTransformation rt (CNum n) Number_format params = roundTo rt n (decimals rt params)"
| "applyTransformation rt (CStr s) Number_format params =
     (let num = parseFloat rt s
      in if \<not> num_isNaN rt num then roundTo rt num (decimals rt params) else Inr (CStr s))"
| "applyTransformation rt v Number_format params = Inr v"
| "applyTransformation rt v Tnone params = Inr v"

text \<open>\<^verbatim>\<open>columnIndexMap\<close>: a header that occurs twice keeps its last index.\<close>

definition columnIndexMap :: "string list \<Rightarrow> (string \<rightharpoonup> nat)" where
  "columnIndexMap headers =
     fold (\<lambda>(header, index) m. m(header \<mapsto> index)) (zip headers [0..<length headers]) Map.empty"

definition transformCell ::
    "('n, 'd) runtime \<Rightarrow> (string \<rightharpoonup> nat) \<Rightarrow> ('n, 'd) cell list \<Rightarrow> 'n MappingEntry
       \<Rightarrow> js_error + ('n, 'd) cell" where
  "transformCell rt indexMap row m =
    (let v = (case indexMap (sourceColumn m) of
                Some sourceIndex \<Rightarrow> cell_at row sourceIndex
              | None \<Rightarrow> CNull)
     in case transform m of
          None \<Rightarrow> Inr v
        | Some t \<Rightarrow> if v \<noteq> CNull then applyTransformation rt v t (transformParams m) else Inr v)"

text \<open>The result of \<^verbatim>\<open>transformData\<close>: the new headers and the new rows.\<close>

record ('n, 'd) Transformed =
  t_headers :: "string list"
  t_data :: "('n, 'd) cell list list"

definition transformData ::
    "('n, 'd) runtime \<Rightarrow> ('n, 'd) cell list list \<Rightarrow> string list \<Rightarrow> 'n MappingEntry list
       \<Rightarrow> js_error + ('n, 'd) Transformed" where
  "transformData rt rows headers mapping =
    (let transformedHeaders = map targetColumn mapping;
         indexMap = columnIndexMap headers
     in case sequence (map (\<lambda>row. sequence (map (transformCell rt indexMap row) mapping)) rows) of
          Inl e \<Rightarrow> Inl e
        | Inr transformedData \<Rightarrow> Inr \<lparr> t_headers = transformedHeaders, t_data = transformedData \<rparr>)"

section \<open>The data merger (\<^verbatim>\<open>DataMerger\<close>)\<close>

subsection \<open>\<^verbatim>\<open>createUnifiedSchema\<close>\<close>

definition columnCounts :: "string list list \<Rightarrow> (string \<times> nat) list" where
  "columnCounts schemas =
     fold (\<lambda>schema counts. fold (\<lambda>column counts. increment column counts) schema counts)
          schemas []"

definition schemaCompare ::
    "('n, 'd) runtime \<Rightarrow> (string \<times> nat) list \<Rightarrow> string \<Rightarrow> string \<Rightarrow> int" where
  "schemaCompare rt counts a b =
    (let countDiff = int (case map_of counts b of None \<Rightarrow> 0 | Some c \<Rightarrow> c)
                   - int (case map_of counts a of None \<Rightarrow> 0 | Some c \<Rightarrow> c)
     in if countDiff \<noteq> 0 then countDiff else localeCompare rt a b)"

definition createUnifiedSchema :: "('n, 'd) runtime \<Rightarrow> string list list \<Rightarrow> string list" where
  "createUnifiedSchema rt schemas =
    (let counts = columnCounts schemas
     in sort_by (schemaCompare rt counts) (map fst counts))"

subsection \<open>\<^verbatim>\<open>alignDataToSchema\<close>\<close>

definition alignDataToSchema ::
    "('n, 'd) cell list list \<Rightarrow> string list \<Rightarrow> string list \<Rightarrow> ('n, 'd) cell list list" where
  "alignDataToSchema rows currentHeaders unifiedHeaders =
    (let headerIndexMap = columnIndexMap currentHeaders
     in map (\<lambda>row. map (\<lambda>header. case headerIndexMap header of
                                    Some index \<Rightarrow> cell_at row index
                                  | None \<Rightarrow> CNull)
                        unifiedHeaders)
            rows)"

subsection \<open>\<^verbatim>\<open>mergeRows\<close>\<close>

text \<open>
  An array of \<^verbatim>\<open>headers.length\<close> nulls, overlaid by the left row, then by the
  right row at the positions that are still \<^verbatim>\<open>null\<close>.
\<close>

definition overlayLeft :: "('n, 'd) cell list \<Rightarrow> ('n, 'd) cell list option \<Rightarrow> ('n, 'd) cell list" where
  "overlayLeft result leftRow =
    (case leftRow of
       None \<Rightarrow> result
     | Some l \<Rightarrow> map (\<lambda>index. if index < length l then l ! index else result ! index)
                     [0..<length result])"

definition overlayRight :: "('n, 'd) cell list \<Rightarrow> ('n, 'd) cell list option \<Rightarrow> ('n, 'd) cell list" where
  "overlayRight result rightRow =
    (case rightRow of
       None \<Rightarrow> result
     | Some r \<Rightarrow> map (\<lambda>index. if index < length r \<and> result ! index = CNull then r ! index
                              else result ! index)
                     [0..<length result])"

definition mergeRows ::
    "('n, 'd) cell list option \<Rightarrow> ('n, 'd) cell list option \<Rightarrow> string list \<Rightarrow> ('n, 'd) cell list" where
  "mergeRows leftRow rightRow headers =
     overlayRight (overlayLeft (replicate (length headers) CNull) leftRow) rightRow"

subsection \<open>\<^verbatim>\<open>performKeyBasedJoin\<close>\<close>

text \<open>\<^verbatim>\<open>String(row[joinKeyIndex] || '')\<close>.\<close>

definition joinKeyOf :: "('n, 'd) runtime \<Rightarrow> nat \<Rightarrow> ('n, 'd) cell list \<Rightarrow> string" where
  "joinKeyOf rt joinKeyIndex row =
    (let v = cell_at row joinKeyIndex
     in js_String rt (if truthy rt v then v else CStr []))"

text \<open>
  A lookup \<^verbatim>\<open>Map\<close> from key to row, in insertion order: \<^verbatim>\<open>set\<close> on a key that is
  present replaces its row and keeps its place.
\<close>

definition lookupMap ::
    "('n, 'd) runtime \<Rightarrow> nat \<Rightarrow> ('n, 'd) cell list list \<Rightarrow> (string \<times> ('n, 'd) cell list) list" where
  "lookupMap rt joinKeyIndex rows =
     fold (\<lambda>row m. AList.update (joinKeyOf rt joinKeyIndex row) row m) rows []"

record ('n, 'd) JoinResult =
  jr_data :: "('n, 'd) cell list list"
  jr_droppedRows :: int

definition performKeyBasedJoin ::
    "('n, 'd) runtime \<Rightarrow> ('n, 'd) cell list list \<Rightarrow> ('n, 'd) cell list list \<Rightarrow> string list
       \<Rightarrow> string \<Rightarrow> JoinType \<Rightarrow> ('n, 'd) JoinResult" where
  "performKeyBasedJoin rt leftData rightData headers jk jt =
    (case indexOf headers jk of
       None \<Rightarrow> \<lparr> jr_data = leftData @ rightData, jr_droppedRows = 0 \<rparr>
     | Some joinKeyIndex \<Rightarrow>
        (let leftMap = lookupMap rt joinKeyIndex leftData;
             rightMap = lookupMap rt joinKeyIndex rightData
         in case jt of
              Inner \<Rightarrow>
                \<lparr> jr_data = map (\<lambda>(key, leftRow). mergeRows (Some leftRow) (map_of rightMap key) headers)
                                (filter (\<lambda>(key, leftRow). map_of rightMap key \<noteq> None) leftMap),
                  jr_droppedRows = int (length (filter (\<lambda>(key, leftRow). map_of rightMap key = None) leftMap)) \<rparr>
            | Left \<Rightarrow>
                \<lparr> jr_data = map (\<lambda>(key, leftRow). mergeRows (Some leftRow) (map_of rightMap key) headers) leftMap,
                  jr_droppedRows = 0 \<rparr>
            | Right \<Rightarrow>
                \<lparr> jr_data = map (\<lambda>(key, rightRow). mergeRows (map_of leftMap key) (Some rightRow) headers) rightMap,
                  jr_droppedRows = 0 \<rparr>
            | Full \<Rightarrow>
                \<lparr> jr_data = map (\<lambda>(key, leftRow). mergeRows (Some leftRow) (map_of rightMap key) headers) leftMap
                            @ map (\<lambda>(key, rightRow). mergeRows None (Some rightRow) headers)
                                  (filter (\<lambda>(key, rightRow). key \<notin> set (map fst leftMap)) rightMap),
                  jr_droppedRows = 0 \<rparr>))"

subsection \<open>\<^verbatim>\<open>handleDuplicates\<close>\<close>

record ('n, 'd) DedupeResult =
  dd_data :: "('n, 'd) cell list list"
  duplicatesRemoved :: int

text \<open>One turn of the \<^verbatim>\<open>forEach\<close>, on the map \<^verbatim>\<open>seen\<close>, the array \<^verbatim>\<open>result\<close> and the counter.\<close>

definition dedupeStep ::
    "('n, 'd) runtime \<Rightarrow> DuplicateStrategy \<Rightarrow> ('n, 'd) cell list
       \<Rightarrow> (string \<rightharpoonup> nat) \<times> ('n, 'd) cell list list \<times> int
       \<Rightarrow> (string \<rightharpoonup> nat) \<times> ('n, 'd) cell list list \<times> int" where
  "dedupeStep rt strategy row = (\<lambda>(seen, result, removed).
    (let key = JSON_stringify rt row
     in case seen key of
          Some prevIndex \<Rightarrow>
            (seen, if strategy = Keep_last then result[prevIndex := row] else result, removed + 1)
        | None \<Rightarrow> (seen(key \<mapsto> length result), result @ [row], removed)))"

definition handleDuplicates ::
    "('n, 'd) runtime \<Rightarrow> ('n, 'd) cell list list \<Rightarrow> DuplicateStrategy \<Rightarrow> ('n, 'd) DedupeResult" where
  "handleDuplicates rt rows strategy =
    (if strategy = Keep_first then \<lparr> dd_data = rows, duplicatesRemoved = 0 \<rparr>
     else (let (seen, result, removed) = fold (dedupeStep rt strategy) rows (Map.empty, [], 0)
           in \<lparr> dd_data = result, duplicatesRemoved = removed \<rparr>))"

text \<open>The invariant of the loop: every index recorded in \<open>seen\<close> is a position of \<open>result\<close>
  that holds a row with that key.\<close>

definition seen_ok :: "('n, 'd) runtime \<Rightarrow> (string \<rightharpoonup> nat) \<Rightarrow> ('n, 'd) cell list list \<Rightarrow> bool" where
  "seen_ok rt seen result \<longleftrightarrow>
     (\<forall>k i. seen k = Some i \<longrightarrow> i < length result \<and> JSON_stringify rt (result ! i) = k)"

subsection \<open>\<^verbatim>\<open>performMerge\<close>\<close>

record ('n, 'd) PerformMergeResult =
  pm_data :: "('n, 'd) cell list list"
  pm_stats :: MergeStats

text \<open>One turn of the loop over the files after the first, on \<^verbatim>\<open>mergedData\<close>,
  \<^verbatim>\<open>totalRows\<close> and \<^verbatim>\<open>droppedRows\<close>.\<close>

definition joinStep ::
    "('n, 'd) runtime \<Rightarrow> string list \<Rightarrow> MergeOptions \<Rightarrow> ('n, 'd) Transformed
       \<Rightarrow> ('n, 'd) cell list list \<times> int \<times> int \<Rightarrow> ('n, 'd) cell list list \<times> int \<times> int" where
  "joinStep rt unifiedHeaders options currentFile = (\<lambda>(mergedData, rowTotal, dropped).
    (let alignedData = alignDataToSchema (t_data currentFile) (t_headers currentFile) unifiedHeaders;
         (mergedData, dropped) =
            (case joinKey options of
               Some jk \<Rightarrow>
                 if jk \<noteq> [] then
                   (let joinResult = performKeyBasedJoin rt mergedData alignedData unifiedHeaders jk
                                        (joinType options)
                    in (jr_data joinResult, dropped + jr_droppedRows joinResult))
                 else (mergedData @ alignedData, dropped)
             | None \<Rightarrow> (mergedData @ alignedData, dropped))
     in (mergedData, rowTotal + int (length (t_data currentFile)), dropped)))"

text \<open>The concatenation of the right and full joins.\<close>

definition concatStep ::
    "string list \<Rightarrow> ('n, 'd) Transformed \<Rightarrow> ('n, 'd) cell list list \<times> int
       \<Rightarrow> ('n, 'd) cell list list \<times> int" where
  "concatStep unifiedHeaders file = (\<lambda>(mergedData, rowTotal).
     (mergedData @ alignDataToSchema (t_data file) (t_headers file) unifiedHeaders,
      rowTotal + int (length (t_data file))))"

text \<open>
  The tail of \<^verbatim>\<open>performMerge\<close>: duplicates, the count of nulls, the row limit.
  \<^verbatim>\<open>options.maxRows\<close> is tested for truthiness, so a limit of \<open>0\<close> is no limit.
\<close>

definition finishMerge ::
    "('n, 'd) runtime \<Rightarrow> MergeOptions \<Rightarrow> ('n, 'd) cell list list \<Rightarrow> int \<Rightarrow> int
       \<Rightarrow> ('n, 'd) PerformMergeResult" where
  "finishMerge rt options mergedData0 rowTotal dropped0 =
    (let (mergedData, duplicates) =
           (if handleDuplicatesOpt options \<noteq> Keep_first then
              (let dedupeResult = handleDuplicates rt mergedData0 (handleDuplicatesOpt options)
               in (dd_data dedupeResult, duplicatesRemoved dedupeResult))
            else (mergedData0, 0));
         nulls = fold (\<lambda>row count. count + int (length (filter (\<lambda>cell. cell = CNull) row)))
                      mergedData 0;
         (mergedData, dropped) =
           (case maxRows options of
              Some m \<Rightarrow>
                if m \<noteq> 0 \<and> int (length mergedData) > m
                then (slice0 mergedData m, dropped0 + (rowTotal - m))
                else (mergedData, dropped0)
            | None \<Rightarrow> (mergedData, dropped0))
     in \<lparr> pm_data = mergedData,
          pm_stats = \<lparr> totalRows = rowTotal, mergedRows = int (length mergedData),
                       droppedRows = dropped, duplicateRows = duplicates, nullValues = nulls \<rparr> \<rparr>)"

text \<open>
  \<^verbatim>\<open>performMerge\<close>. The entries of \<^verbatim>\<open>transformedFiles\<close> are read for their headers
  and data only. With no entry at all the inner and left joins read a field of
  \<^verbatim>\<open>undefined\<close>, which throws a TypeError (the message is the engine's).
\<close>

definition performMerge ::
    "('n, 'd) runtime \<Rightarrow> ('n, 'd) Transformed list \<Rightarrow> string list \<Rightarrow> MergeOptions
       \<Rightarrow> js_error + ('n, 'd) PerformMergeResult" where
  "performMerge rt transformedFiles unifiedHeaders options =
    (if joinType options = Inner \<or> joinType options = Left then
       (case transformedFiles of
          [] \<Rightarrow> Inl (Error ''Cannot read properties of undefined'')
        | baseFile # others \<Rightarrow>
           (let (mergedData, rowTotal, dropped) =
                  fold (joinStep rt unifiedHeaders options) others
                    (alignDataToSchema (t_data baseFile) (t_headers baseFile) unifiedHeaders,
                     int (length (t_data baseFile)), 0)
            in Inr (finishMerge rt options mergedData rowTotal dropped)))
     else
       (let (mergedData, rowTotal) = fold (concatStep unifiedHeaders) transformedFiles ([], 0)
        in Inr (finishMerge rt options mergedData rowTotal 0)))"

subsection \<open>\<^verbatim>\<open>convertToRecordFormat\<close> and the merger's own \<^verbatim>\<open>detectColumnTypes\<close>\<close>

definition convertToRecordFormat ::
    "('n, 'd) cell list list \<Rightarrow> string list \<Rightarrow> (string \<rightharpoonup> ('n, 'd) cell) list" where
  "convertToRecordFormat rows headers =
     map (\<lambda>row. fold (\<lambda>(header, index) record. record(header \<mapsto> cell_at row index))
                      (zip headers [0..<length headers]) Map.empty)
         rows"

definition mergedColumn :: "('n, 'd) cell list list \<Rightarrow> string \<Rightarrow> nat \<Rightarrow> ('n, 'd) ColumnType" where
  "mergedColumn rows header index =
    (let cells = columnData rows index;
         n = length cells;
         numberCount = length (filter is_number cells);
         dateCount = length (filter is_date cells);
         stringCount = length (filter is_string cells);
         (type, conf) =
           (if n = 0 then (TUnknown, 0)
            else if (of_nat numberCount / of_nat n :: rat) > 4 / 5
                 then (TNumber, of_nat numberCount / of_nat n)
            else if (of_nat dateCount / of_nat n :: rat) > 4 / 5
                 then (TDate, of_nat dateCount / of_nat n)
            else if (of_nat stringCount / of_nat n :: rat) > 4 / 5
                 then (TString, of_nat stringCount / of_nat n)
            else (TMixed, 1 / 2))
     in \<lparr> ct_name = header, ct_type = type, confidence = conf,
          samples = take 10 cells,
          nullCount = int (length rows) - int n,
          uniqueCount = length (new_Set cells) \<rparr>)"

definition DataMerger_detectColumnTypes ::
    "('n, 'd) cell list list \<Rightarrow> string list \<Rightarrow> ('n, 'd) ColumnType list" where
  "DataMerger_detectColumnTypes rows headers =
     map (\<lambda>(header, index). mergedColumn rows header index) (zip headers [0..<length headers])"

subsection \<open>\<^verbatim>\<open>mergeFiles\<close>\<close>

text \<open>
  The loop over the mappings. It pushes warnings and may be left by an exception
  of \<^verbatim>\<open>transformData\<close>; the warnings pushed until then stay in the array that the
  \<^verbatim>\<open>catch\<close> clause returns, so they are returned beside the outcome.
\<close>

fun transformFiles ::
    "('n, 'd) runtime \<Rightarrow> ('n, 'd) ProcessedFile list \<Rightarrow> 'n ColumnMapping list
       \<Rightarrow> string list \<times> (js_error + ('n, 'd) Transformed list)" where
  "transformFiles rt files [] = ([], Inr [])"
| "transformFiles rt files (mapping # rest) =
    (case find (\<lambda>f. file_id f = sourceFileId mapping) files of
       None \<Rightarrow>
         (let (ws, r) = transformFiles rt files rest
          in ((''File '' @ sourceFileId mapping @ '' not found or has no data'') # ws, r))
     | Some file \<Rightarrow>
        (case parsedData file of
           None \<Rightarrow>
             (let (ws, r) = transformFiles rt files rest
              in ((''File '' @ sourceFileId mapping @ '' not found or has no data'') # ws, r))
         | Some pd \<Rightarrow>
            (case transformData rt (pd_rows pd) (pd_headers pd) (mappings mapping) of
               Inl e \<Rightarrow> ([], Inl e)
             | Inr transformed \<Rightarrow>
                (let (ws, r) = transformFiles rt files rest
                 in (ws, case r of Inl e \<Rightarrow> Inl e | Inr tfs \<Rightarrow> Inr (transformed # tfs))))))"

text \<open>The body of the \<^verbatim>\<open>try\<close> block: the warnings pushed, and the dataset and statistics
  or the exception thrown.\<close>

definition mergeFiles_try ::
    "('n, 'd) runtime \<Rightarrow> ('n, 'd) clock \<Rightarrow> ('n, 'd) ProcessedFile list \<Rightarrow> 'n ColumnMapping list
       \<Rightarrow> MergeOptions \<Rightarrow> string list \<times> (js_error + ('n, 'd) ProcessedDataset \<times> MergeStats)" where
  "mergeFiles_try rt clk files maps options =
    (if length files = 0 then ([], Inl (Error ''No files provided for merging''))
     else if length maps = 0 then ([], Inl (Error ''No column mappings provided''))
     else
       (let (ws, r) = transformFiles rt files maps
        in case r of
             Inl e \<Rightarrow> (ws, Inl e)
           | Inr transformedFiles \<Rightarrow>
              if length transformedFiles = 0
              then (ws, Inl (Error ''No valid files to merge after transformation''))
              else
                (let unifiedHeaders = createUnifiedSchema rt (map t_headers transformedFiles)
                 in case performMerge rt transformedFiles unifiedHeaders options of
                      Inl e \<Rightarrow> (ws, Inl e)
                    | Inr mergeResult \<Rightarrow>
                       (ws, Inr (\<lparr> ds_id = ''merged-'' @ num_String rt (Date_now clk),
                                   ds_name = ''Merged Dataset ('' @ digits (length files) @ '' files)'',
                                   sourceFiles = map file_id files,
                                   ds_headers = unifiedHeaders,
                                   ds_data = convertToRecordFormat (pm_data mergeResult) unifiedHeaders,
                                   ds_columnTypes = DataMerger_detectColumnTypes (pm_data mergeResult) unifiedHeaders,
                                   createdAt = new_Date clk,
                                   ds_rowCount = length (pm_data mergeResult) \<rparr>,
                                 pm_stats mergeResult)))))"

text \<open>\<^verbatim>\<open>mergeFiles\<close>: the \<^verbatim>\<open>try\<close> block and its \<^verbatim>\<open>catch\<close> clause, which itself throws nothing.\<close>

definition mergeFiles ::
    "('n, 'd) runtime \<Rightarrow> ('n, 'd) clock \<Rightarrow> ('n, 'd) ProcessedFile list \<Rightarrow> 'n ColumnMapping list
       \<Rightarrow> MergeOptions \<Rightarrow> ('n, 'd) MergeResult" where
  "mergeFiles rt clk files maps options =
    (case mergeFiles_try rt clk files maps options of
       (ws, Inr (ds, st)) \<Rightarrow> \<lparr> dataset = ds, stats = st, warnings = ws, errors = [] \<rparr>
     | (ws, Inl e) \<Rightarrow>
         \<lparr> dataset = \<lparr> ds_id = ''error-'' @ num_String rt (Date_now clk),
                       ds_name = ''Failed Merge'',
                       sourceFiles = map file_id files,
                       ds_headers = [],
                       ds_data = [],
                       ds_columnTypes = [],
                       createdAt = new_Date clk,
                       ds_rowCount = 0 \<rparr>,
           stats = \<lparr> totalRows = 0, mergedRows = 0, droppedRows = 0, duplicateRows = 0,
                     nullValues = 0 \<rparr>,
           warnings = ws,
           errors = [message e] \<rparr>)"

section \<open>A runtime for concrete inputs\<close>

text \<open>
  The concrete inputs below hold strings, \<^verbatim>\<open>null\<close>, \<^verbatim>\<open>undefined\<close>, integers and
  invalid dates. The runtime for them orders strings by their character codes, as
  \<^verbatim>\<open>localeCompare\<close> orders lower-case ASCII words; its quoting of JSON escapes the
  quote and the backslash; its numbers are the integers; each of its dates is an
  invalid \<^verbatim>\<open>Date\<close>, which prints as \<^verbatim>\<open>Invalid Date\<close>, has no JSON form and makes
  \<^verbatim>\<open>format\<close> throw the RangeError \<^verbatim>\<open>Invalid time value\<close>. The conversion of digits
  (\<^verbatim>\<open>toFixed\<close>, \<^verbatim>\<open>Number\<close>, \<^verbatim>\<open>parseFloat\<close>), the change of case and \<^verbatim>\<open>parseISO\<close> are
  not reached by any of these inputs.
\<close>

fun compareCodes :: "string \<Rightarrow> string \<Rightarrow> int" where
  "compareCodes [] [] = 0"
| "compareCodes [] (y # ys) = -1"
| "compareCodes (x # xs) [] = 1"
| "compareCodes (x # xs) (y # ys) =
     (if of_char x < (of_char y :: nat) then -1
      else if of_char x > (of_char y :: nat) then 1
      else compareCodes xs ys)"

definition quoteChar :: "char \<Rightarrow> string" where
  "quoteChar c = (if c = CHR 0x22 then [CHR 0x5C, CHR 0x22]
                  else if c = CHR 0x5C then [CHR 0x5C, CHR 0x5C] else [c])"

definition quoteString :: "string \<Rightarrow> string" where
  "quoteString s = dq @ concat (map quoteChar s) @ dq"

definition printInt :: "int \<Rightarrow> string" where
  "printInt i = (if i < 0 then ''-'' @ digits (nat (- i)) else digits (nat i))"

definition sample_runtime :: "(int, nat) runtime" where
  "sample_runtime =
     \<lparr> num_String = printInt,
       num_falsy = (\<lambda>n. n = 0),
       num_isFinite = (\<lambda>n. True),
       num_isNaN = (\<lambda>n. False),
       num_two = 2,
       num_toFixed = (\<lambda>n k. Inl (Error ''toFixed'')),
       Number = (\<lambda>s. 0),
       parseFloat = (\<lambda>s. 0),
       date_String = (\<lambda>d. ''Invalid Date''),
       date_toJSON = (\<lambda>d. None),
       json_quote = quoteString,
       toUpperCase = (\<lambda>s. s),
       toLowerCase = (\<lambda>s. s),
       localeCompare = compareCodes,
       format = (\<lambda>d f. Inl (Error ''Invalid time value'')),
       parseISO = (\<lambda>s. Inl (Error ''Invalid time value'')) \<rparr>"

definition sample_clock :: "(int, nat) clock" where
  "sample_clock = \<lparr> Date_now = 0, new_Date = 0 \<rparr>"

text \<open>A mapping entry that keeps a column under its name, with no transformation.\<close>

definition keep :: "string \<Rightarrow> int MappingEntry" where
  "keep c = \<lparr> sourceColumn = c, targetColumn = c, transform = None, transformParams = None \<rparr>"

definition parsed :: "string list \<Rightarrow> (int, nat) cell list list \<Rightarrow> (int, nat) ParsedData" where
  "parsed hs rs = \<lparr> pd_headers = hs, pd_rows = rs, pd_rowCount = length rs,
                    pd_columnTypes = detectColumnTypes hs rs \<rparr>"

text \<open>A file whose processing failed, and a mapping that maps two columns to \<open>id\<close>
  and reads a column \<open>zip\<close>.\<close>

definition unparsedFile :: "(int, nat) ProcessedFile" where
  "unparsedFile = \<lparr> file_id = ''A'', parsedData = None \<rparr>"

definition customers :: "(int, nat) ProcessedFile" where
  "customers = \<lparr> file_id = ''A'',
                 parsedData = Some (parsed [''a'', ''b''] [[CStr ''x'', CStr ''y'']]) \<rparr>"

definition rename :: "string \<Rightarrow> string \<Rightarrow> int MappingEntry" where
  "rename s t = \<lparr> sourceColumn = s, targetColumn = t, transform = None, transformParams = None \<rparr>"

definition mappingOf :: "string \<Rightarrow> int MappingEntry list \<Rightarrow> int ColumnMapping" where
  "mappingOf f ms = \<lparr> mapping_id = ''m-'' @ f, sourceFileId = f, targetFileId = None, mappings = ms,
                      cm_joinType = None, cm_joinKey = None \<rparr>"

definition twiceId :: "int ColumnMapping" where
  "twiceId = mappingOf ''A'' [rename ''a'' ''id'', rename ''b'' ''id'', rename ''zip'' ''zip'']"

text \<open>A column of three strings and two numbers, and one of five strings and five numbers.\<close>

definition threeAndTwo :: "(int, nat) cell list list" where
  "threeAndTwo = [[CStr ''x''], [CStr ''y''], [CStr ''z''], [CNum 1], [CNum 2]]"

definition fiveAndFive :: "(int, nat) cell list list" where
  "fiveAndFive = [[CNum 1], [CNum 2], [CNum 3], [CNum 4], [CNum 5],
                  [CStr ''a''], [CStr ''b''], [CStr ''c''], [CStr ''d''], [CStr ''e'']]"

text \<open>Rows for the duplicate handling: a short row read past its end beside a row
  holding \<^verbatim>\<open>null\<close>, and three rows of which the first and the last are equal.\<close>

definition undefinedThenNull :: "(int, nat) cell list list" where
  "undefinedThenNull = [[CUndefined], [CNull]]"

definition abaRows :: "(int, nat) cell list list" where
  "abaRows = [[CStr ''a''], [CStr ''b''], [CStr ''a'']]"

section \<open>Notions used to state the properties of the key-based join\<close>

text \<open>The last row of a list of rows that has a given join key.\<close>

definition lastRow ::
    "('n, 'd) runtime \<Rightarrow> nat \<Rightarrow> ('n, 'd) cell list list \<Rightarrow> string \<Rightarrow> ('n, 'd) cell list option" where
  "lastRow rt joinKeyIndex rows key = find (\<lambda>row. joinKeyOf rt joinKeyIndex row = key) (rev rows)"

text \<open>The join keys that occur in a list of rows.\<close>

definition keysOf :: "('n, 'd) runtime \<Rightarrow> nat \<Rightarrow> ('n, 'd) cell list list \<Rightarrow> string set" where
  "keysOf rt joinKeyIndex rows = joinKeyOf rt joinKeyIndex ` set rows"

text \<open>Two sides of a join on the first column: on the left two rows with the key \<open>1\<close>
  and two rows whose key cell is \<^verbatim>\<open>null\<close> or empty, on the right one row with the key \<open>1\<close>.\<close>

definition ordersLeft :: "(int, nat) cell list list" where
  "ordersLeft = [[CStr ''1'', CStr ''a''], [CStr ''1'', CStr ''b''],
                 [CNull, CStr ''n''], [CStr [], CStr ''e'']]"

definition ordersRight :: "(int, nat) cell list list" where
  "ordersRight = [[CStr ''1'', CStr ''c'']]"

text \<open>Two sides whose key cells are numbers: the keys \<open>1\<close>, \<open>2\<close>, \<open>0\<close> and \<open>7\<close> on the left,
  \<open>1\<close> and \<open>2\<close> on the right.\<close>

definition numberedLeft :: "(int, nat) cell list list" where
  "numberedLeft = [[CNum 1, CStr ''a''], [CNum 2, CStr ''b''], [CNum 0, CStr ''z''],
                   [CNum 7, CStr ''s'']]"

definition numberedRight :: "(int, nat) cell list list" where
  "numberedRight = [[CNum 1, CStr ''c''], [CNum 2, CStr ''d'']]"

section \<open>Notions used to state the properties of \<^verbatim>\<open>mergeFiles\<close>\<close>

text \<open>The result of a failed merge: no headers, no rows, no column types, a row
  count of \<open>0\<close> and statistics that are all \<open>0\<close>.\<close>

definition emptyResult :: "('n, 'd) MergeResult \<Rightarrow> bool" where
  "emptyResult r \<longleftrightarrow>
     ds_headers (dataset r) = [] \<and> ds_data (dataset r) = [] \<and> ds_columnTypes (dataset r) = [] \<and>
     ds_rowCount (dataset r) = 0 \<and>
     stats r = \<lparr> totalRows = 0, mergedRows = 0, droppedRows = 0, duplicateRows = 0, nullValues = 0 \<rparr>"

text \<open>The files, mappings and options of the concrete merges.\<close>

definition fileOf :: "string \<Rightarrow> string list \<Rightarrow> (int, nat) cell list list \<Rightarrow> (int, nat) ProcessedFile" where
  "fileOf f hs rs = \<lparr> file_id = f, parsedData = Some (parsed hs rs) \<rparr>"

definition keepAll :: "string \<Rightarrow> string list \<Rightarrow> int ColumnMapping" where
  "keepAll f hs = mappingOf f (map keep hs)"

definition joinOn :: "JoinType \<Rightarrow> string \<Rightarrow> int option \<Rightarrow> MergeOptions" where
  "joinOn jt jk cap = \<lparr> joinType = jt, joinKey = Some jk, handleDuplicatesOpt = Keep_first,
                        validateTypes = False, maxRows = cap \<rparr>"

text \<open>The inner join of the specification's example: one row on the left, two on the right.\<close>

definition leftFile :: "(int, nat) ProcessedFile" where
  "leftFile = fileOf ''L'' [''k'', ''v''] [[CStr ''1'', CStr ''a'']]"

definition rightFile :: "(int, nat) ProcessedFile" where
  "rightFile = fileOf ''R'' [''k'', ''v''] [[CStr ''1'', CStr ''b''], [CStr ''2'', CStr ''c'']]"

text \<open>Two files with one column: the keys \<open>1\<close>, \<open>2\<close>, \<open>3\<close> on the left, \<open>1\<close>, \<open>2\<close> on the right.\<close>

definition threeKeys :: "(int, nat) ProcessedFile" where
  "threeKeys = fileOf ''L'' [''k''] [[CStr ''1''], [CStr ''2''], [CStr ''3'']]"

definition twoKeys :: "(int, nat) ProcessedFile" where
  "twoKeys = fileOf ''R'' [''k''] [[CStr ''1''], [CStr ''2'']]"

text \<open>A file with one invalid date, and a mapping that formats the column.\<close>

definition datedFile :: "(int, nat) ProcessedFile" where
  "datedFile = fileOf ''D'' [''d''] [[CDate 0]]"

definition formatDates :: "int ColumnMapping" where
  "formatDates = mappingOf ''D'' [\<lparr> sourceColumn = ''d'', targetColumn = ''d'',
                                     transform = Some Date_format, transformParams = None \<rparr>]"

text \<open>A file whose first row is shorter than its header, and options that only remove
  duplicates.\<close>

definition shortRows :: "(int, nat) ProcessedFile" where
  "shortRows = fileOf ''S'' [''a''] [[], [CNull]]"

definition dedupeWith :: "DuplicateStrategy \<Rightarrow> MergeOptions" where
  "dedupeWith s = \<lparr> joinType = Full, joinKey = None, handleDuplicatesOpt = s,
                     validateTypes = False, maxRows = None \<rparr>"

section \<open>Properties of the library model\<close>

lemma set_fold_Set_add: "set (fold Set_add xs s) = set xs \<union> set s"
  by (induction xs arbitrary: s) (auto simp: Set_add_def)

lemma distinct_fold_Set_add: "distinct s \<Longrightarrow> distinct (fold Set_add xs s)"
  by (induction xs arbitrary: s) (auto simp: Set_add_def)

lemma set_new_Set: "set (new_Set xs) = set xs"
  by (simp add: new_Set_def set_fold_Set_add)

lemma distinct_new_Set: "distinct (new_Set xs)"
  by (simp add: new_Set_def distinct_fold_Set_add)

lemma length_new_Set: "length (new_Set xs) = card (set xs)"
  using distinct_card [OF distinct_new_Set, of xs] by (simp add: set_new_Set)

section \<open>Jaccard similarity\<close>

lemma jaccardSimilarity_card:
  "jaccardSimilarity words1 words2 =
     (if set words1 \<union> set words2 = {} then 0
      else of_nat (card (set words1 \<inter> set words2)) / of_nat (card (set words1 \<union> set words2)))"
proof -
  have i: "set (filter (\<lambda>x. x \<in> set (new_Set words2)) (new_Set words1)) = set words1 \<inter> set words2"
    by (auto simp: set_new_Set)
  have u: "set (new_Set words1 @ new_Set words2) = set words1 \<union> set words2"
    by (simp add: set_new_Set)
  show ?thesis
    unfolding jaccardSimilarity_def Let_def length_new_Set i u
    by (simp add: card_eq_0_iff)
qed

text \<open>
  Claim C8, as the code has it. Token sequences with disjoint token sets have
  similarity \<open>0\<close>, and so have two sequences whose union of tokens is empty; token
  sequences with equal token sets have similarity \<open>1\<close> provided the set is not
  empty.
\<close>

theorem jaccard_disjoint_or_equal:
  "(set A \<inter> set B = {} \<longrightarrow> jaccardSimilarity A B = 0) \<and>
   (set A \<union> set B = {} \<longrightarrow> jaccardSimilarity A B = 0) \<and>
   (set A = set B \<and> set A \<noteq> {} \<longrightarrow> jaccardSimilarity A B = 1)"
  by (auto simp: jaccardSimilarity_card card_eq_0_iff)

theorem jaccard_disjoint_or_equal_witness:
  "set [''a'', ''b''] \<inter> set [''c''] = {} \<and> jaccardSimilarity [''a'', ''b''] [''c''] = 0 \<and>
   set ([] :: string list) \<union> set [] = {} \<and> jaccardSimilarity [] [] = 0 \<and>
   set [''a'', ''b'', ''a''] = set [''b'', ''a''] \<and> set [''a'', ''b'', ''a''] \<noteq> {} \<and>
   jaccardSimilarity [''a'', ''b'', ''a''] [''b'', ''a''] = 1"
  using jaccard_disjoint_or_equal [of "[''a'', ''b'']" "[''c'']"]
        jaccard_disjoint_or_equal [of "[]" "[]"]
        jaccard_disjoint_or_equal [of "[''a'', ''b'', ''a'']" "[''b'', ''a'']"]
  by auto

text \<open>
  Claim C8 as stated fails where both token sequences are empty: their token sets
  are equal, and the similarity is \<open>0\<close>, not \<open>1\<close>.
\<close>

theorem jaccard_equal_empty_counterexample:
  "set ([] :: string list) = set [] \<and> jaccardSimilarity [] [] \<noteq> 1"
  by (simp add: jaccardSimilarity_def new_Set_def)

section \<open>Mapping validation\<close>

lemma distinct_increment: "distinct (map fst counts) \<Longrightarrow> distinct (map fst (increment k counts))"
  by (simp add: increment_def distinct_update)

lemma map_of_increment:
  "map_of (increment k counts) c =
     (if c = k then Some ((case map_of counts k of None \<Rightarrow> 0 | Some j \<Rightarrow> j) + 1)
      else map_of counts c)"
  by (simp add: increment_def update_conv')

lemma distinct_fold_increment:
  "distinct (map fst counts) \<Longrightarrow> distinct (map fst (fold (\<lambda>m counts. increment (f m) counts) ms counts))"
  by (induction ms arbitrary: counts) (simp_all add: distinct_increment)

lemma map_of_fold_increment:
  "map_of (fold (\<lambda>m counts. increment (f m) counts) ms counts) c =
   (case map_of counts c of
      None \<Rightarrow> if length (filter (\<lambda>m. f m = c) ms) = 0 then None
              else Some (length (filter (\<lambda>m. f m = c) ms))
    | Some j \<Rightarrow> Some (j + length (filter (\<lambda>m. f m = c) ms)))"
proof (induction ms arbitrary: counts)
  case Nil
  show ?case by (simp split: option.splits)
next
  case (Cons m ms)
  show ?case
    by (simp add: Cons.IH map_of_increment split: option.splits)
qed

lemma targetColumnCounts_distinct: "distinct (map fst (targetColumnCounts ms))"
  unfolding targetColumnCounts_def by (rule distinct_fold_increment) simp

lemma targetColumnCounts_map_of:
  "map_of (targetColumnCounts ms) c =
     (if length (filter (\<lambda>m. targetColumn m = c) ms) = 0 then None
      else Some (length (filter (\<lambda>m. targetColumn m = c) ms)))"
  unfolding targetColumnCounts_def by (simp add: map_of_fold_increment)

lemma targetColumnCounts_mem:
  "(c, k) \<in> set (targetColumnCounts ms) \<longleftrightarrow>
     k = length (filter (\<lambda>m. targetColumn m = c) ms) \<and> k \<noteq> 0"
  using map_of_eq_Some_iff [OF targetColumnCounts_distinct, of ms c k]
  by (auto simp: targetColumnCounts_map_of split: if_splits)

lemma distinct_count_le_1:
  "distinct (map f ms) \<Longrightarrow> length (filter (\<lambda>m. f m = c) ms) \<le> 1"
  by (induction ms) (auto simp: filter_empty_conv image_iff)

lemma count_le_1_distinct:
  "(\<forall>c. length (filter (\<lambda>m. f m = c) ms) \<le> 1) \<Longrightarrow> distinct (map f ms)"
proof (induction ms)
  case Nil
  show ?case by simp
next
  case (Cons m ms)
  have "f m \<notin> f ` set ms"
  proof
    assume "f m \<in> f ` set ms"
    then have "filter (\<lambda>x. f x = f m) ms \<noteq> []"
      by (auto simp: filter_empty_conv)
    then have "0 < length (filter (\<lambda>x. f x = f m) ms)" by simp
    with Cons.prems [rule_format, of "f m"] show False by simp
  qed
  moreover have "\<forall>c. length (filter (\<lambda>m. f m = c) ms) \<le> 1"
  proof
    fix c
    show "length (filter (\<lambda>m. f m = c) ms) \<le> 1"
      using Cons.prems [rule_format, of c] by (simp split: if_splits)
  qed
  ultimately show ?case using Cons.IH by simp
qed

lemma validateMapping_source_errors:
  assumes "parsedData sourceFile = Some spd"
    and "m \<in> set (mappings mapping)" and "sourceColumn m \<notin> set (pd_headers spd)"
  shows "''Source column '' @ dq @ sourceColumn m @ dq @ '' does not exist in file''
           \<in> set (validateMapping mapping sourceFile targetFile)"
  using assms by (auto simp: validateMapping_def Let_def)

lemma validateMapping_duplicate_errors:
  assumes "parsedData sourceFile = Some spd"
    and c: "1 < length (filter (\<lambda>m. targetColumn m = c) (mappings mapping))"
  shows "''Target column '' @ dq @ c @ dq @ '' is mapped multiple times''
           \<in> set (validateMapping mapping sourceFile targetFile)"
proof -
  from c have "(c, length (filter (\<lambda>m. targetColumn m = c) (mappings mapping)))
                 \<in> set (targetColumnCounts (mappings mapping))"
    by (auto simp: targetColumnCounts_mem)
  with c show ?thesis
    using assms(1) by (force simp: validateMapping_def Let_def)
qed

lemma no_duplicate_errors_iff:
  "filter (\<lambda>(column, count). count > 1) (targetColumnCounts ms) = []
     \<longleftrightarrow> distinct (map targetColumn ms)"
proof
  assume e: "filter (\<lambda>(column, count). count > 1) (targetColumnCounts ms) = []"
  have "\<forall>c. length (filter (\<lambda>m. targetColumn m = c) ms) \<le> 1"
  proof
    fix c
    show "length (filter (\<lambda>m. targetColumn m = c) ms) \<le> 1"
    proof (rule ccontr)
      assume "\<not> length (filter (\<lambda>m. targetColumn m = c) ms) \<le> 1"
      then have "(c, length (filter (\<lambda>m. targetColumn m = c) ms)) \<in> set (targetColumnCounts ms)"
        and "1 < length (filter (\<lambda>m. targetColumn m = c) ms)"
        by (auto simp: targetColumnCounts_mem)
      with e show False by (auto simp: filter_empty_conv)
    qed
  qed
  then show "distinct (map targetColumn ms)" by (rule count_le_1_distinct)
next
  assume d: "distinct (map targetColumn ms)"
  show "filter (\<lambda>(column, count). count > 1) (targetColumnCounts ms) = []"
    using distinct_count_le_1 [OF d]
    by (auto simp: filter_empty_conv targetColumnCounts_mem simp del: One_nat_def) (metis not_less)
qed

lemma validateMapping_empty_iff:
  assumes "parsedData sourceFile = Some spd"
  shows "validateMapping mapping sourceFile targetFile = [] \<longleftrightarrow>
           (\<forall>m \<in> set (mappings mapping). sourceColumn m \<in> set (pd_headers spd)) \<and>
           (\<forall>tf tpd. targetFile = Some tf \<and> parsedData tf = Some tpd \<longrightarrow>
              (\<forall>m \<in> set (mappings mapping). targetColumn m \<in> set (pd_headers tpd))) \<and>
           distinct (map targetColumn (mappings mapping))"
  using assms no_duplicate_errors_iff [of "mappings mapping"]
  by (auto simp: validateMapping_def Let_def filter_empty_conv split: option.splits)

lemma validateMapping_unparsed:
  "parsedData sourceFile = None \<Longrightarrow>
     validateMapping mapping sourceFile targetFile = [''Source file has no parsed data'']"
  by (simp add: validateMapping_def)

text \<open>
  Claim C6, as the code has it. \<^verbatim>\<open>validateMapping\<close> is a total function into the
  lists of strings. For every source file without parsed data the result is the
  single message that the source file has no parsed data. When the source file has
  parsed data, every entry whose source column is not among the source file's
  headers contributes the error naming that column, every target column that more
  than one entry maps to contributes the error that it is mapped multiple times,
  and the result is empty exactly when every source column is a header of the
  source file, every target column is a header of the parsed target file (if one
  is given) and no target column is mapped twice.
\<close>

theorem validateMapping_reports:
  "(parsedData sourceFile = None \<longrightarrow>
      validateMapping mapping sourceFile targetFile = [''Source file has no parsed data'']) \<and>
   (\<forall>spd. parsedData sourceFile = Some spd \<longrightarrow>
     (\<forall>m \<in> set (mappings mapping). sourceColumn m \<notin> set (pd_headers spd) \<longrightarrow>
        ''Source column '' @ dq @ sourceColumn m @ dq @ '' does not exist in file''
          \<in> set (validateMapping mapping sourceFile targetFile)) \<and>
     (\<forall>c. 1 < length (filter (\<lambda>m. targetColumn m = c) (mappings mapping)) \<longrightarrow>
        ''Target column '' @ dq @ c @ dq @ '' is mapped multiple times''
          \<in> set (validateMapping mapping sourceFile targetFile)) \<and>
     (validateMapping mapping sourceFile targetFile = [] \<longleftrightarrow>
        (\<forall>m \<in> set (mappings mapping). sourceColumn m \<in> set (pd_headers spd)) \<and>
        (\<forall>tf tpd. targetFile = Some tf \<and> parsedData tf = Some tpd \<longrightarrow>
           (\<forall>m \<in> set (mappings mapping). targetColumn m \<in> set (pd_headers tpd))) \<and>
        distinct (map targetColumn (mappings mapping))))"
proof -
  have a: "parsedData sourceFile = None \<longrightarrow>
      validateMapping mapping sourceFile targetFile = [''Source file has no parsed data'']"
    using validateMapping_unparsed [of sourceFile mapping targetFile] by blast
  have b: "\<forall>spd. parsedData sourceFile = Some spd \<longrightarrow>
     (\<forall>m \<in> set (mappings mapping). sourceColumn m \<notin> set (pd_headers spd) \<longrightarrow>
        ''Source column '' @ dq @ sourceColumn m @ dq @ '' does not exist in file''
          \<in> set (validateMapping mapping sourceFile targetFile)) \<and>
     (\<forall>c. 1 < length (filter (\<lambda>m. targetColumn m = c) (mappings mapping)) \<longrightarrow>
        ''Target column '' @ dq @ c @ dq @ '' is mapped multiple times''
          \<in> set (validateMapping mapping sourceFile targetFile)) \<and>
     (validateMapping mapping sourceFile targetFile = [] \<longleftrightarrow>
        (\<forall>m \<in> set (mappings mapping). sourceColumn m \<in> set (pd_headers spd)) \<and>
        (\<forall>tf tpd. targetFile = Some tf \<and> parsedData tf = Some tpd \<longrightarrow>
           (\<forall>m \<in> set (mappings mapping). targetColumn m \<in> set (pd_headers tpd))) \<and>
        distinct (map targetColumn (mappings mapping)))"
  proof (rule allI, rule impI)
    fix spd
    assume p: "parsedData sourceFile = Some spd"
    show "(\<forall>m \<in> set (mappings mapping). sourceColumn m \<notin> set (pd_headers spd) \<longrightarrow>
        ''Source column '' @ dq @ sourceColumn m @ dq @ '' does not exist in file''
          \<in> set (validateMapping mapping sourceFile targetFile)) \<and>
     (\<forall>c. 1 < length (filter (\<lambda>m. targetColumn m = c) (mappings mapping)) \<longrightarrow>
        ''Target column '' @ dq @ c @ dq @ '' is mapped multiple times''
          \<in> set (validateMapping mapping sourceFile targetFile)) \<and>
     (validateMapping mapping sourceFile targetFile = [] \<longleftrightarrow>
        (\<forall>m \<in> set (mappings mapping). sourceColumn m \<in> set (pd_headers spd)) \<and>
        (\<forall>tf tpd. targetFile = Some tf \<and> parsedData tf = Some tpd \<longrightarrow>
           (\<forall>m \<in> set (mappings mapping). targetColumn m \<in> set (pd_headers tpd))) \<and>
        distinct (map targetColumn (mappings mapping)))"
      using validateMapping_source_errors [OF p, of _ mapping targetFile]
        validateMapping_duplicate_errors [OF p, of _ mapping targetFile]
        validateMapping_empty_iff [OF p, of mapping targetFile]
      by blast
  qed
  from a b show ?thesis by (rule conjI)
qed

theorem validateMapping_reports_witness:
  "parsedData unparsedFile = None \<and>
   validateMapping twiceId unparsedFile None = [''Source file has no parsed data''] \<and>
   parsedData customers = Some (parsed [''a'', ''b''] [[CStr ''x'', CStr ''y'']]) \<and>
   rename ''zip'' ''zip'' \<in> set (mappings twiceId) \<and>
   ''zip'' \<notin> set [''a'', ''b''] \<and>
   ''Source column '' @ dq @ ''zip'' @ dq @ '' does not exist in file''
      \<in> set (validateMapping twiceId customers None) \<and>
   1 < length (filter (\<lambda>m. targetColumn m = ''id'') (mappings twiceId)) \<and>
   ''Target column '' @ dq @ ''id'' @ dq @ '' is mapped multiple times''
      \<in> set (validateMapping twiceId customers None) \<and>
   validateMapping (mappingOf ''A'' [rename ''a'' ''id'', rename ''b'' ''name'']) customers None = []"
proof -
  have n: "parsedData unparsedFile = None"
    by (simp add: unparsedFile_def)
  have p: "parsedData customers = Some (parsed [''a'', ''b''] [[CStr ''x'', CStr ''y'']])"
    by (simp add: customers_def)
  have h: "pd_headers (parsed [''a'', ''b''] [[CStr ''x'', CStr ''y'']]) = [''a'', ''b'']"
    by (simp add: parsed_def)
  have m: "mappings twiceId = [rename ''a'' ''id'', rename ''b'' ''id'', rename ''zip'' ''zip'']"
    by (simp add: twiceId_def mappingOf_def)
  have z: "sourceColumn (rename ''zip'' ''zip'') = ''zip''"
    by (simp add: rename_def)
  have c: "1 < length (filter (\<lambda>m. targetColumn m = ''id'') (mappings twiceId))"
    by (simp add: m rename_def)
  have 0: "validateMapping twiceId unparsedFile None = [''Source file has no parsed data'']"
    using validateMapping_reports [of unparsedFile twiceId None, THEN conjunct1] n by blast
  note t = validateMapping_reports [of customers twiceId None, THEN conjunct2, rule_format, OF p]
  note u = validateMapping_reports [of customers
               "mappingOf ''A'' [rename ''a'' ''id'', rename ''b'' ''name'']" None,
             THEN conjunct2, rule_format, OF p]
  have 1: "''Source column '' @ dq @ ''zip'' @ dq @ '' does not exist in file''
      \<in> set (validateMapping twiceId customers None)"
    using t [THEN conjunct1, rule_format, of "rename ''zip'' ''zip''"] by (simp add: m h z)
  have 2: "''Target column '' @ dq @ ''id'' @ dq @ '' is mapped multiple times''
      \<in> set (validateMapping twiceId customers None)"
    using t [THEN conjunct2, THEN conjunct1, rule_format, OF c] .
  have 3: "validateMapping (mappingOf ''A'' [rename ''a'' ''id'', rename ''b'' ''name'']) customers None = []"
    using u [THEN conjunct2, THEN conjunct2] by (simp add: mappingOf_def h rename_def)
  show ?thesis using n 0 p m c 1 2 3 by simp
qed

text \<open>
  Claim C6 as stated fails for a source file without parsed data: the function
  returns after its first check, and a target column mapped twice is not reported.
\<close>

theorem validateMapping_unparsed_counterexample:
  "1 < length (filter (\<lambda>m. targetColumn m = ''id'') (mappings twiceId)) \<and>
   validateMapping twiceId unparsedFile None = [''Source file has no parsed data''] \<and>
   ''Target column '' @ dq @ ''id'' @ dq @ '' is mapped multiple times''
      \<notin> set (validateMapping twiceId unparsedFile None)"
  by (simp add: validateMapping_def unparsedFile_def twiceId_def mappingOf_def rename_def)

section \<open>Type detection\<close>

lemma dominant_typeCounts:
  "dominant (length (filter is_string cells)) (typeCounts cells) =
    (let s = length (filter is_string cells);
         n = length (filter is_number cells);
         d = length (filter is_date cells)
     in if n > s then (if d > n then (TDate, d) else (TNumber, n))
        else (if d > s then (TDate, d) else (TString, s)))"
  by (simp add: dominant_def typeCounts_def Let_def)

lemma snd_dominant_typeCounts:
  "snd (dominant (length (filter is_string cells)) (typeCounts cells)) =
     max (length (filter is_string cells))
         (max (length (filter is_number cells)) (length (filter is_date cells)))"
  by (simp add: dominant_typeCounts Let_def max_def)

lemma fst_dominant_typeCounts:
  "fst (dominant (length (filter is_string cells)) (typeCounts cells)) \<in> {TString, TNumber, TDate}"
  by (simp add: dominant_typeCounts Let_def)

lemma detectColumn_never_unknown: "ct_type (detectColumn rows header index) \<noteq> TUnknown"
  using fst_dominant_typeCounts [of "columnData rows index"]
  by (auto simp: detectColumn_def Let_def split: prod.splits if_splits)

lemma detectColumn_all_null:
  "columnData rows index = [] \<Longrightarrow>
     ct_type (detectColumn rows header index) = TString \<and>
     confidence (detectColumn rows header index) = 0"
  by (simp add: detectColumn_def dominant_typeCounts Let_def)

lemma mergedColumn_unknown_iff:
  "ct_type (mergedColumn rows header index) = TUnknown \<longleftrightarrow> columnData rows index = []"
  by (simp add: mergedColumn_def Let_def split: prod.splits)

lemma detectColumnTypes_nth:
  "i < length headers \<Longrightarrow> detectColumnTypes headers rows ! i = detectColumn rows (headers ! i) i"
  by (simp add: detectColumnTypes_def)

lemma detectColumn_mixed:
  assumes "5 < length (columnData rows i)"
    and "of_nat (snd (dominant (length (filter is_string (columnData rows i)))
                        (typeCounts (columnData rows i))))
           / of_nat (length (columnData rows i)) < (4 / 5 :: rat)"
  shows "ct_type (detectColumn rows header i) = TMixed \<and> confidence (detectColumn rows header i) = 1 / 2"
proof -
  obtain t m where dm: "dominant (length (filter is_string (columnData rows i)))
                          (typeCounts (columnData rows i)) = (t, m)"
    by (cases "dominant (length (filter is_string (columnData rows i))) (typeCounts (columnData rows i))")
  from assms have "columnData rows i \<noteq> []" by auto
  with assms show ?thesis
    unfolding detectColumn_def Let_def dm by simp
qed

text \<open>
  Claim C4, as the code has it. For every column with more than five non-null
  cells whose largest type count, divided by the number of non-null cells, is below
  \<open>0.8\<close>, the detector returns the type \<open>mixed\<close> with confidence \<open>0.5\<close>.
\<close>

theorem detectColumnTypes_mixed:
  "i < length headers \<Longrightarrow> 5 < length (columnData rows i) \<Longrightarrow>
   of_nat (snd (dominant (length (filter is_string (columnData rows i)))
                  (typeCounts (columnData rows i))))
     / of_nat (length (columnData rows i)) < (4 / 5 :: rat) \<Longrightarrow>
   ct_type (detectColumnTypes headers rows ! i) = TMixed \<and>
   confidence (detectColumnTypes headers rows ! i) = 1 / 2"
  by (simp add: detectColumnTypes_nth detectColumn_mixed)

lemma columnData_fiveAndFive: "columnData fiveAndFive 0 = [CNum 1, CNum 2, CNum 3, CNum 4, CNum 5,
                  CStr ''a'', CStr ''b'', CStr ''c'', CStr ''d'', CStr ''e'']"
  by (simp add: columnData_def fiveAndFive_def cell_at_def)

theorem detectColumnTypes_mixed_witness:
  "(0::nat) < length [''a''] \<and> 5 < length (columnData fiveAndFive 0) \<and>
   of_nat (snd (dominant (length (filter is_string (columnData fiveAndFive 0)))
                  (typeCounts (columnData fiveAndFive 0))))
     / of_nat (length (columnData fiveAndFive 0)) < (4 / 5 :: rat) \<and>
   ct_type (detectColumnTypes [''a''] fiveAndFive ! 0) = TMixed \<and>
   confidence (detectColumnTypes [''a''] fiveAndFive ! 0) = 1 / 2"
proof -
  have a: "(0::nat) < length [''a'']" by simp
  have b: "5 < length (columnData fiveAndFive 0)" by (simp add: columnData_fiveAndFive)
  have c: "of_nat (snd (dominant (length (filter is_string (columnData fiveAndFive 0)))
                  (typeCounts (columnData fiveAndFive 0))))
     / of_nat (length (columnData fiveAndFive 0)) < (4 / 5 :: rat)"
    by (simp add: columnData_fiveAndFive dominant_def typeCounts_def)
  show ?thesis using a b c detectColumnTypes_mixed [OF a b c] by simp
qed

text \<open>
  Claim C4 as stated fails for a column with exactly five non-null cells: three
  strings and two numbers have a dominant fraction of \<open>0.6\<close>, and the column keeps
  the type \<open>string\<close> with confidence \<open>0.6\<close>.
\<close>

theorem detectColumnTypes_five_counterexample:
  "5 \<le> length (columnData threeAndTwo 0) \<and>
   of_nat (snd (dominant (length (filter is_string (columnData threeAndTwo 0)))
                  (typeCounts (columnData threeAndTwo 0))))
     / of_nat (length (columnData threeAndTwo 0)) < (4 / 5 :: rat) \<and>
   ct_type (detectColumnTypes [''a''] threeAndTwo ! 0) = TString \<and>
   confidence (detectColumnTypes [''a''] threeAndTwo ! 0) = 3 / 5"
proof -
  have cd: "columnData threeAndTwo 0 = [CStr ''x'', CStr ''y'', CStr ''z'', CNum 1, CNum 2]"
    by (simp add: columnData_def threeAndTwo_def cell_at_def)
  show ?thesis
    by (simp add: detectColumnTypes_def detectColumn_def cd dominant_def typeCounts_def new_Set_def Set_add_def)
qed

text \<open>
  Claim C3 at a column whose cells are all \<^verbatim>\<open>null\<close>: the detector used at parse time
  returns the type \<open>string\<close> with confidence \<open>0\<close>, where the merger's own detector
  returns \<open>unknown\<close> on the same column.
\<close>

theorem detectColumnTypes_all_null:
  "detectColumnTypes [''a''] [[CNull], [CNull]] =
     [\<lparr> ct_name = ''a'', ct_type = TString, confidence = 0, samples = [],
        nullCount = 2, uniqueCount = 0 \<rparr>] \<and>
   DataMerger_detectColumnTypes [[CNull], [CNull]] [''a''] =
     [\<lparr> ct_name = ''a'', ct_type = TUnknown, confidence = 0, samples = [],
        nullCount = 2, uniqueCount = 0 \<rparr>]"
  by (simp add: detectColumnTypes_def detectColumn_def DataMerger_detectColumnTypes_def
        mergedColumn_def columnData_def cell_at_def dominant_def typeCounts_def new_Set_def)

section \<open>Duplicate handling\<close>

lemma seen_ok_step:
  assumes "seen_ok rt seen result"
    and "dedupeStep rt strategy row (seen, result, n) = (seen', result', n')"
  shows "seen_ok rt seen' result'"
proof (cases "seen (JSON_stringify rt row)")
  case None
  with assms(2) have s: "seen' = seen(JSON_stringify rt row \<mapsto> length result)"
    and r: "result' = result @ [row]"
    by (auto simp: dedupeStep_def Let_def)
  show ?thesis
    unfolding seen_ok_def s r
  proof (intro allI impI)
    fix k i
    assume a: "(seen(JSON_stringify rt row \<mapsto> length result)) k = Some i"
    show "i < length (result @ [row]) \<and> JSON_stringify rt ((result @ [row]) ! i) = k"
    proof (cases "k = JSON_stringify rt row")
      case True
      with a have "i = length result" by simp
      with True show ?thesis by simp
    next
      case False
      with a have "seen k = Some i" by simp
      with assms(1) have "i < length result \<and> JSON_stringify rt (result ! i) = k"
        by (simp add: seen_ok_def)
      then show ?thesis by (simp add: nth_append)
    qed
  qed
next
  case (Some i)
  with assms(2) have s: "seen' = seen"
    and r: "result' = (if strategy = Keep_last then result[i := row] else result)"
    by (auto simp: dedupeStep_def Let_def)
  from assms(1) Some have i: "i < length result" and ki: "JSON_stringify rt (result ! i) = JSON_stringify rt row"
    by (auto simp: seen_ok_def)
  show ?thesis
    unfolding seen_ok_def s r
  proof (intro allI impI)
    fix k j
    assume a: "seen k = Some j"
    with assms(1) have j: "j < length result" and kj: "JSON_stringify rt (result ! j) = k"
      by (auto simp: seen_ok_def)
    show "j < length (if strategy = Keep_last then result[i := row] else result) \<and>
          JSON_stringify rt ((if strategy = Keep_last then result[i := row] else result) ! j) = k"
      using i j kj ki by (cases "j = i") auto
  qed
qed

lemma dedupe_keys_step:
  assumes "seen_ok rt seen rk" and "map (JSON_stringify rt) rk = map (JSON_stringify rt) rm"
  shows "\<exists>seen' rk' rm' n'.
           dedupeStep rt Keep_last row (seen, rk, n) = (seen', rk', n') \<and>
           dedupeStep rt Merge_values row (seen, rm, n) = (seen', rm', n') \<and>
           map (JSON_stringify rt) rk' = map (JSON_stringify rt) rm'"
proof (cases "seen (JSON_stringify rt row)")
  case None
  from assms(2) have "length rk = length rm" by (rule map_eq_imp_length_eq)
  with None assms(2) show ?thesis
    by (simp add: dedupeStep_def Let_def)
next
  case (Some i)
  with assms(1) have i: "i < length rk" and k: "JSON_stringify rt (rk ! i) = JSON_stringify rt row"
    by (auto simp: seen_ok_def)
  have "map (JSON_stringify rt) (rk[i := row]) = (map (JSON_stringify rt) rk)[i := JSON_stringify rt row]"
    by (simp add: map_update)
  also have "\<dots> = map (JSON_stringify rt) rk"
    using i k by (simp add: list_update_same_conv)
  finally show ?thesis
    using Some assms(2) by (simp add: dedupeStep_def Let_def)
qed

lemma dedupe_keys_fold:
  assumes "seen_ok rt seen rk" and "map (JSON_stringify rt) rk = map (JSON_stringify rt) rm"
  shows "\<exists>seen' rk' rm' n'.
           fold (dedupeStep rt Keep_last) rows (seen, rk, n) = (seen', rk', n') \<and>
           fold (dedupeStep rt Merge_values) rows (seen, rm, n) = (seen', rm', n') \<and>
           map (JSON_stringify rt) rk' = map (JSON_stringify rt) rm'"
  using assms
proof (induction rows arbitrary: seen rk rm n)
  case Nil
  then show ?case by simp
next
  case (Cons row rows)
  from dedupe_keys_step [OF Cons.prems, of row n]
  obtain seen1 rk1 rm1 n1 where
    k: "dedupeStep rt Keep_last row (seen, rk, n) = (seen1, rk1, n1)" and
    m: "dedupeStep rt Merge_values row (seen, rm, n) = (seen1, rm1, n1)" and
    e: "map (JSON_stringify rt) rk1 = map (JSON_stringify rt) rm1"
    by blast
  have ok: "seen_ok rt seen1 rk1"
    using seen_ok_step [OF Cons.prems(1) k] .
  from Cons.IH [OF ok e, of n1] show ?case
    by (simp add: k m)
qed

lemma dedupe_subset_step:
  "dedupeStep rt strategy row (seen, result, n) = (seen', result', n') \<Longrightarrow>
     set result' \<subseteq> insert row (set result)"
  using set_update_subset_insert [of result _ row]
  by (auto simp: dedupeStep_def Let_def split: option.splits if_splits)

lemma dedupe_subset_fold:
  "fold (dedupeStep rt strategy) rows (seen, result, n) = (seen', result', n') \<Longrightarrow>
     set result' \<subseteq> set rows \<union> set result"
proof (induction rows arbitrary: seen result n)
  case Nil
  then show ?case by simp
next
  case (Cons row rows)
  obtain seen1 r1 n1 where s: "dedupeStep rt strategy row (seen, result, n) = (seen1, r1, n1)"
    by (cases "dedupeStep rt strategy row (seen, result, n)") auto
  from Cons.prems have "fold (dedupeStep rt strategy) rows (seen1, r1, n1) = (seen', result', n')"
    by (simp add: s)
  from Cons.IH [OF this] dedupe_subset_step [OF s] show ?case by auto
qed

lemma handleDuplicates_subset:
  "set (dd_data (handleDuplicates rt rows strategy)) \<subseteq> set rows"
proof (cases "strategy = Keep_first")
  case True
  then show ?thesis by (simp add: handleDuplicates_def)
next
  case False
  obtain seen' result' n' where f: "fold (dedupeStep rt strategy) rows (Map.empty, [], 0) = (seen', result', n')"
    by (cases "fold (dedupeStep rt strategy) rows (Map.empty, [], 0)") auto
  from dedupe_subset_fold [OF f] False show ?thesis
    by (simp add: handleDuplicates_def f)
qed

lemma handleDuplicates_keys:
  "duplicatesRemoved (handleDuplicates rt rows Merge_values)
     = duplicatesRemoved (handleDuplicates rt rows Keep_last) \<and>
   map (JSON_stringify rt) (dd_data (handleDuplicates rt rows Merge_values))
     = map (JSON_stringify rt) (dd_data (handleDuplicates rt rows Keep_last))"
proof -
  have ok: "seen_ok rt Map.empty []" by (simp add: seen_ok_def)
  from dedupe_keys_fold [OF ok, of "[]" rows 0]
  obtain seen' rk' rm' n' where
    "fold (dedupeStep rt Keep_last) rows (Map.empty, [], 0) = (seen', rk', n')"
    "fold (dedupeStep rt Merge_values) rows (Map.empty, [], 0) = (seen', rm', n')"
    "map (JSON_stringify rt) rk' = map (JSON_stringify rt) rm'"
    by auto
  then show ?thesis by (simp add: handleDuplicates_def)
qed

text \<open>
  Claim C7, as the code has it. On every list of rows the strategies
  \<open>merge_values\<close> and \<open>keep_last\<close> remove the same number of duplicates and return
  lists of rows that agree, position by position, in the \<^verbatim>\<open>JSON.stringify\<close> key the
  code compares rows by; the rows returned are the same whenever rows of the
  input with the same key are the same row.
\<close>

theorem merge_values_like_keep_last:
  "duplicatesRemoved (handleDuplicates rt rows Merge_values)
     = duplicatesRemoved (handleDuplicates rt rows Keep_last) \<and>
   map (JSON_stringify rt) (dd_data (handleDuplicates rt rows Merge_values))
     = map (JSON_stringify rt) (dd_data (handleDuplicates rt rows Keep_last)) \<and>
   (inj_on (JSON_stringify rt) (set rows) \<longrightarrow>
      dd_data (handleDuplicates rt rows Merge_values) = dd_data (handleDuplicates rt rows Keep_last))"
proof -
  note k = handleDuplicates_keys [of rt rows]
  have "dd_data (handleDuplicates rt rows Merge_values) = dd_data (handleDuplicates rt rows Keep_last)"
    if i: "inj_on (JSON_stringify rt) (set rows)"
  proof (rule map_inj_on)
    show "map (JSON_stringify rt) (dd_data (handleDuplicates rt rows Merge_values))
            = map (JSON_stringify rt) (dd_data (handleDuplicates rt rows Keep_last))"
      using k by simp
    show "inj_on (JSON_stringify rt)
            (set (dd_data (handleDuplicates rt rows Merge_values))
               \<union> set (dd_data (handleDuplicates rt rows Keep_last)))"
      using i handleDuplicates_subset [of rt rows Merge_values]
        handleDuplicates_subset [of rt rows Keep_last]
      by (auto intro: inj_on_subset)
  qed
  with k show ?thesis by simp
qed

theorem merge_values_like_keep_last_witness:
  "inj_on (JSON_stringify sample_runtime) (set abaRows) \<and>
   duplicatesRemoved (handleDuplicates sample_runtime abaRows Merge_values) = 1 \<and>
   duplicatesRemoved (handleDuplicates sample_runtime abaRows Keep_last) = 1 \<and>
   dd_data (handleDuplicates sample_runtime abaRows Merge_values) = [[CStr ''a''], [CStr ''b'']] \<and>
   dd_data (handleDuplicates sample_runtime abaRows Merge_values)
     = dd_data (handleDuplicates sample_runtime abaRows Keep_last)"
proof -
  have i: "inj_on (JSON_stringify sample_runtime) (set abaRows)"
    by (auto simp: inj_on_def abaRows_def JSON_stringify_def sample_runtime_def quoteString_def
          quoteChar_def dq_def)
  have m: "handleDuplicates sample_runtime abaRows Merge_values
             = \<lparr> dd_data = [[CStr ''a''], [CStr ''b'']], duplicatesRemoved = 1 \<rparr>"
    by (simp add: handleDuplicates_def dedupeStep_def abaRows_def JSON_stringify_def
          sample_runtime_def quoteString_def quoteChar_def dq_def)
  from i m merge_values_like_keep_last [of sample_runtime abaRows] show ?thesis
    by simp
qed

text \<open>
  Claim C7 as stated fails on two rows with the same key that are not the same
  row: \<^verbatim>\<open>JSON.stringify\<close> prints both \<^verbatim>\<open>[undefined]\<close> and \<^verbatim>\<open>[null]\<close> as \<^verbatim>\<open>[null]\<close>;
  \<open>keep_last\<close> returns the later row and \<open>merge_values\<close> the earlier one.
\<close>

theorem merge_values_keep_last_counterexample:
  "dd_data (handleDuplicates sample_runtime undefinedThenNull Keep_last) = [[CNull]] \<and>
   dd_data (handleDuplicates sample_runtime undefinedThenNull Merge_values) = [[CUndefined]] \<and>
   dd_data (handleDuplicates sample_runtime undefinedThenNull Merge_values)
     \<noteq> dd_data (handleDuplicates sample_runtime undefinedThenNull Keep_last)"
  by (simp add: handleDuplicates_def dedupeStep_def undefinedThenNull_def JSON_stringify_def)

text \<open>
  Such rows reach the duplicate handling from a parsed file: a row shorter than the
  header is read past its end. The two strategies then differ in the merged rows and
  in the count of nulls.
\<close>

lemma short_row_duplicates_differ:
  "stats (mergeFiles sample_runtime sample_clock [shortRows] [keepAll ''S'' [''a'']]
            (dedupeWith Keep_last))
     = \<lparr> totalRows = 2, mergedRows = 1, droppedRows = 0, duplicateRows = 1, nullValues = 1 \<rparr> \<and>
   stats (mergeFiles sample_runtime sample_clock [shortRows] [keepAll ''S'' [''a'']]
            (dedupeWith Merge_values))
     = \<lparr> totalRows = 2, mergedRows = 1, droppedRows = 0, duplicateRows = 1, nullValues = 0 \<rparr>"
  by code_simp

section \<open>The key-based join\<close>

lemma indexOf_less: "indexOf xs x = Some i \<Longrightarrow> i < length xs"
  by (induction xs arbitrary: i) (auto split: if_splits)

lemma indexOf_nth: "indexOf xs x = Some i \<Longrightarrow> xs ! i = x"
  by (induction xs arbitrary: i) (auto split: if_splits)

lemma indexOf_None_iff: "indexOf xs x = None \<longleftrightarrow> x \<notin> set xs"
  by (induction xs) auto

lemma find_append_case:
  "find P (xs @ ys) = (case find P xs of None \<Rightarrow> find P ys | Some x \<Rightarrow> Some x)"
  by (induction xs) auto

lemma find_SomeD: "find P xs = Some x \<Longrightarrow> x \<in> set xs \<and> P x"
  by (induction xs) (auto split: if_splits)

lemma fold_update_distinct:
  "distinct (map fst m) \<Longrightarrow> distinct (map fst (fold (\<lambda>row m. AList.update (key row) row m) rows m))"
  by (induction rows arbitrary: m) (simp_all add: distinct_update)

lemma fold_update_map_of:
  "map_of (fold (\<lambda>row m. AList.update (key row) row m) rows m) k =
     (case find (\<lambda>row. key row = k) (rev rows) of
        Some row \<Rightarrow> Some row
      | None \<Rightarrow> map_of m k)"
proof (induction rows arbitrary: m)
  case Nil
  show ?case by simp
next
  case (Cons row rows)
  show ?case
    by (simp add: Cons.IH update_conv' find_append_case split: option.splits)
qed

lemma fold_update_keys:
  "fst ` set (fold (\<lambda>row m. AList.update (key row) row m) rows m) = key ` set rows \<union> fst ` set m"
  by (induction rows arbitrary: m) (auto simp: dom_update)

lemma lookupMap_distinct: "distinct (map fst (lookupMap rt idx rows))"
  unfolding lookupMap_def by (rule fold_update_distinct) simp

lemma lookupMap_map_of: "map_of (lookupMap rt idx rows) k = lastRow rt idx rows k"
  unfolding lookupMap_def lastRow_def by (simp add: fold_update_map_of split: option.splits)

lemma lookupMap_keys: "fst ` set (lookupMap rt idx rows) = keysOf rt idx rows"
  unfolding lookupMap_def keysOf_def by (simp add: fold_update_keys)

lemma lastRow_Some:
  "lastRow rt idx rows k = Some row \<Longrightarrow> row \<in> set rows \<and> joinKeyOf rt idx row = k"
  unfolding lastRow_def by (auto dest: find_SomeD)

lemma lastRow_None_iff: "lastRow rt idx rows k = None \<longleftrightarrow> k \<notin> keysOf rt idx rows"
  unfolding lastRow_def keysOf_def by (auto simp: find_None_iff)

lemma lookupMap_entry:
  "(k, row) \<in> set (lookupMap rt idx rows) \<longleftrightarrow> lastRow rt idx rows k = Some row"
  using map_of_eq_Some_iff [OF lookupMap_distinct, of rt idx rows k row]
  by (simp add: lookupMap_map_of)

lemma length_lookupMap: "length (lookupMap rt idx rows) = card (keysOf rt idx rows)"
proof -
  have "card (keysOf rt idx rows) = card (set (map fst (lookupMap rt idx rows)))"
    by (simp add: lookupMap_keys)
  also have "\<dots> = length (map fst (lookupMap rt idx rows))"
    by (rule distinct_card) (rule lookupMap_distinct)
  finally show ?thesis by simp
qed


lemma length_mergeRows: "length (mergeRows l r headers) = length headers"
  by (simp add: mergeRows_def overlayLeft_def overlayRight_def split: option.splits)

lemma mergeRows_nth:
  "i < length headers \<Longrightarrow>
     mergeRows l r headers ! i =
       (let a = (case l of None \<Rightarrow> CNull | Some lr \<Rightarrow> if i < length lr then lr ! i else CNull)
        in case r of
             None \<Rightarrow> a
           | Some rr \<Rightarrow> if i < length rr \<and> a = CNull then rr ! i else a)"
  by (auto simp: mergeRows_def overlayLeft_def overlayRight_def Let_def split: option.splits)

lemma joinKeyOf_cases:
  "joinKeyOf rt idx row =
     (if idx < length row \<and> truthy rt (row ! idx) then js_String rt (row ! idx) else [])"
  by (simp add: joinKeyOf_def cell_at_def Let_def)

lemma joinKeyOf_mergeRows_left:
  assumes "idx < length headers"
    and "\<And>rr. r = Some rr \<Longrightarrow> joinKeyOf rt idx rr = joinKeyOf rt idx lr"
  shows "joinKeyOf rt idx (mergeRows (Some lr) r headers) = joinKeyOf rt idx lr"
proof (cases r)
  case None
  with assms(1) show ?thesis
    by (auto simp: joinKeyOf_cases length_mergeRows mergeRows_nth)
next
  case (Some rr)
  from assms(2) [OF Some] assms(1) Some show ?thesis
    by (auto simp: joinKeyOf_cases length_mergeRows mergeRows_nth Let_def split: if_splits)
qed

lemma joinKeyOf_mergeRows_right:
  assumes "idx < length headers"
    and "\<And>lr. l = Some lr \<Longrightarrow> joinKeyOf rt idx lr = joinKeyOf rt idx rr"
  shows "joinKeyOf rt idx (mergeRows l (Some rr) headers) = joinKeyOf rt idx rr"
proof (cases l)
  case None
  with assms(1) show ?thesis
    by (auto simp: joinKeyOf_cases length_mergeRows mergeRows_nth)
next
  case (Some lr)
  from assms(2) [OF Some] have "joinKeyOf rt idx (mergeRows (Some lr) (Some rr) headers) = joinKeyOf rt idx lr"
    by (intro joinKeyOf_mergeRows_left [OF assms(1)]) simp
  with assms(2) [OF Some] Some show ?thesis by simp
qed


lemma left_rows_keys:
  assumes "idx < length headers" and "set xs \<subseteq> set (lookupMap rt idx leftData)"
  shows "map (joinKeyOf rt idx)
           (map (\<lambda>(key, leftRow). mergeRows (Some leftRow) (map_of (lookupMap rt idx rightData) key) headers) xs)
         = map fst xs"
proof -
  have "joinKeyOf rt idx (mergeRows (Some leftRow) (map_of (lookupMap rt idx rightData) key) headers) = key"
    if "(key, leftRow) \<in> set xs" for key leftRow
  proof -
    from that assms(2) have "lastRow rt idx leftData key = Some leftRow"
      by (auto simp: lookupMap_entry)
    then have l: "joinKeyOf rt idx leftRow = key" by (simp add: lastRow_Some)
    have "joinKeyOf rt idx rr = joinKeyOf rt idx leftRow"
      if "map_of (lookupMap rt idx rightData) key = Some rr" for rr
      using that l by (simp add: lookupMap_map_of lastRow_Some)
    from joinKeyOf_mergeRows_left [OF assms(1) this] l show ?thesis by simp
  qed
  then show ?thesis by (induction xs) auto
qed

lemma right_rows_keys:
  assumes "idx < length headers" and "set xs \<subseteq> set (lookupMap rt idx rightData)"
    and "\<And>key lr. l key = Some lr \<Longrightarrow> joinKeyOf rt idx lr = key"
  shows "map (joinKeyOf rt idx) (map (\<lambda>(key, rightRow). mergeRows (l key) (Some rightRow) headers) xs)
         = map fst xs"
proof -
  have "joinKeyOf rt idx (mergeRows (l key) (Some rightRow) headers) = key"
    if "(key, rightRow) \<in> set xs" for key rightRow
  proof -
    from that assms(2) have "lastRow rt idx rightData key = Some rightRow"
      by (auto simp: lookupMap_entry)
    then have r: "joinKeyOf rt idx rightRow = key" by (simp add: lastRow_Some)
    have "joinKeyOf rt idx lr = joinKeyOf rt idx rightRow" if "l key = Some lr" for lr
      using assms(3) [OF that] r by simp
    from joinKeyOf_mergeRows_right [OF assms(1) this] r show ?thesis by simp
  qed
  then show ?thesis by (induction xs) auto
qed

lemma join_data_Inner:
  "indexOf headers jk = Some idx \<Longrightarrow>
   jr_data (performKeyBasedJoin rt leftData rightData headers jk Inner) =
     map (\<lambda>(key, leftRow). mergeRows (Some leftRow) (map_of (lookupMap rt idx rightData) key) headers)
         (filter (\<lambda>(key, leftRow). map_of (lookupMap rt idx rightData) key \<noteq> None)
                 (lookupMap rt idx leftData))"
  by (simp add: performKeyBasedJoin_def Let_def)

lemma join_data_Left:
  "indexOf headers jk = Some idx \<Longrightarrow>
   jr_data (performKeyBasedJoin rt leftData rightData headers jk Left) =
     map (\<lambda>(key, leftRow). mergeRows (Some leftRow) (map_of (lookupMap rt idx rightData) key) headers)
         (lookupMap rt idx leftData)"
  by (simp add: performKeyBasedJoin_def Let_def)

lemma join_data_Right:
  "indexOf headers jk = Some idx \<Longrightarrow>
   jr_data (performKeyBasedJoin rt leftData rightData headers jk Right) =
     map (\<lambda>(key, rightRow). mergeRows (map_of (lookupMap rt idx leftData) key) (Some rightRow) headers)
         (lookupMap rt idx rightData)"
  by (simp add: performKeyBasedJoin_def Let_def)

lemma join_data_Full:
  "indexOf headers jk = Some idx \<Longrightarrow>
   jr_data (performKeyBasedJoin rt leftData rightData headers jk Full) =
     map (\<lambda>(key, leftRow). mergeRows (Some leftRow) (map_of (lookupMap rt idx rightData) key) headers)
         (lookupMap rt idx leftData)
     @ map (\<lambda>(key, rightRow). mergeRows ((\<lambda>k. None) key) (Some rightRow) headers)
           (filter (\<lambda>(key, rightRow). key \<notin> set (map fst (lookupMap rt idx leftData)))
                   (lookupMap rt idx rightData))"
  by (simp add: performKeyBasedJoin_def Let_def)

lemma join_keys:
  assumes "indexOf headers jk = Some idx"
  shows "map (joinKeyOf rt idx) (jr_data (performKeyBasedJoin rt leftData rightData headers jk jt)) =
     (case jt of
        Inner \<Rightarrow> map fst (filter (\<lambda>(key, leftRow). map_of (lookupMap rt idx rightData) key \<noteq> None)
                                 (lookupMap rt idx leftData))
      | Left \<Rightarrow> map fst (lookupMap rt idx leftData)
      | Right \<Rightarrow> map fst (lookupMap rt idx rightData)
      | Full \<Rightarrow> map fst (lookupMap rt idx leftData)
                @ map fst (filter (\<lambda>(key, rightRow). key \<notin> set (map fst (lookupMap rt idx leftData)))
                                  (lookupMap rt idx rightData)))"
proof -
  note i = indexOf_less [OF assms]
  have lk: "joinKeyOf rt idx lr = key" if "map_of (lookupMap rt idx leftData) key = Some lr" for key lr
    using that by (simp add: lookupMap_map_of lastRow_Some)
  have nk: "joinKeyOf rt idx lr = key" if "(\<lambda>k. None :: ('a, 'b) cell list option) key = Some lr" for key lr
    using that by simp
  show ?thesis
  proof (cases jt)
    case Inner
    show ?thesis
      unfolding Inner join_data_Inner [OF assms] JoinType.case
      by (rule left_rows_keys [OF i]) auto
  next
    case Left
    show ?thesis
      unfolding Left join_data_Left [OF assms] JoinType.case
      by (rule left_rows_keys [OF i]) auto
  next
    case Right
    show ?thesis
      unfolding Right join_data_Right [OF assms] JoinType.case
      by (rule right_rows_keys [OF i _ lk]) auto
  next
    case Full
    have a: "map (joinKeyOf rt idx)
               (map (\<lambda>(key, leftRow). mergeRows (Some leftRow) (map_of (lookupMap rt idx rightData) key) headers)
                    (lookupMap rt idx leftData)) = map fst (lookupMap rt idx leftData)"
      by (rule left_rows_keys [OF i]) auto
    have b: "map (joinKeyOf rt idx)
               (map (\<lambda>(key, rightRow). mergeRows ((\<lambda>k. None) key) (Some rightRow) headers)
                    (filter (\<lambda>(key, rightRow). key \<notin> set (map fst (lookupMap rt idx leftData)))
                            (lookupMap rt idx rightData)))
             = map fst (filter (\<lambda>(key, rightRow). key \<notin> set (map fst (lookupMap rt idx leftData)))
                               (lookupMap rt idx rightData))"
      by (rule right_rows_keys [OF i _ nk]) auto
    show ?thesis
      unfolding Full join_data_Full [OF assms] JoinType.case map_append a b ..
  qed
qed

lemma join_keys_distinct:
  assumes "indexOf headers jk = Some idx"
  shows "distinct (map (joinKeyOf rt idx) (jr_data (performKeyBasedJoin rt leftData rightData headers jk jt)))"
  unfolding join_keys [OF assms]
  using lookupMap_distinct [of rt idx leftData] lookupMap_distinct [of rt idx rightData]
  by (cases jt) (fastforce simp: distinct_map_filter image_iff)+

lemma join_rows_last:
  assumes "indexOf headers jk = Some idx"
    and "out \<in> set (jr_data (performKeyBasedJoin rt leftData rightData headers jk jt))"
  shows "\<exists>key. out = mergeRows (lastRow rt idx leftData key) (lastRow rt idx rightData key) headers"
proof (cases jt)
  case Inner
  with assms(2) obtain key leftRow where
    "(key, leftRow) \<in> set (lookupMap rt idx leftData)"
    "out = mergeRows (Some leftRow) (map_of (lookupMap rt idx rightData) key) headers"
    unfolding Inner join_data_Inner [OF assms(1)] by auto
  then show ?thesis by (intro exI [of _ key]) (simp add: lookupMap_entry lookupMap_map_of)
next
  case Left
  with assms(2) obtain key leftRow where
    "(key, leftRow) \<in> set (lookupMap rt idx leftData)"
    "out = mergeRows (Some leftRow) (map_of (lookupMap rt idx rightData) key) headers"
    unfolding Left join_data_Left [OF assms(1)] by auto
  then show ?thesis by (intro exI [of _ key]) (simp add: lookupMap_entry lookupMap_map_of)
next
  case Right
  with assms(2) obtain key rightRow where
    "(key, rightRow) \<in> set (lookupMap rt idx rightData)"
    "out = mergeRows (map_of (lookupMap rt idx leftData) key) (Some rightRow) headers"
    unfolding Right join_data_Right [OF assms(1)] by auto
  then show ?thesis by (intro exI [of _ key]) (simp add: lookupMap_entry lookupMap_map_of)
next
  case Full
  from assms(2) consider
    (l) key leftRow where "(key, leftRow) \<in> set (lookupMap rt idx leftData)"
      "out = mergeRows (Some leftRow) (map_of (lookupMap rt idx rightData) key) headers"
  | (r) key rightRow where "(key, rightRow) \<in> set (lookupMap rt idx rightData)"
      "key \<notin> fst ` set (lookupMap rt idx leftData)"
      "out = mergeRows None (Some rightRow) headers"
    unfolding Full join_data_Full [OF assms(1)] by auto
  then show ?thesis
  proof cases
    case l
    then show ?thesis by (intro exI [of _ key]) (simp add: lookupMap_entry lookupMap_map_of)
  next
    case r
    from r(2) have "lastRow rt idx leftData key = None"
      by (simp add: lookupMap_keys lastRow_None_iff)
    with r(1,3) show ?thesis by (intro exI [of _ key]) (simp add: lookupMap_entry)
  qed
qed

lemma join_dropped:
  assumes "indexOf headers jk = Some idx"
  shows "jr_droppedRows (performKeyBasedJoin rt leftData rightData headers jk jt) =
           (if jt = Inner then int (card (keysOf rt idx leftData - keysOf rt idx rightData)) else 0)"
proof (cases jt)
  case Inner
  let ?unmatched = "filter (\<lambda>(key, leftRow). map_of (lookupMap rt idx rightData) key = None)
                      (lookupMap rt idx leftData)"
  have d: "distinct (map fst ?unmatched)"
    using lookupMap_distinct [of rt idx leftData] by (simp add: distinct_map_filter)
  have "set (map fst ?unmatched) = keysOf rt idx leftData - keysOf rt idx rightData"
    using lookupMap_keys [of rt idx leftData]
    by (auto simp: lookupMap_map_of lastRow_None_iff image_iff) force+
  with distinct_card [OF d] have "length ?unmatched = card (keysOf rt idx leftData - keysOf rt idx rightData)"
    by simp
  with Inner show ?thesis
    by (simp add: performKeyBasedJoin_def assms Let_def)
qed (simp_all add: performKeyBasedJoin_def assms Let_def)

lemma falsy_key_empty: "\<not> truthy rt (cell_at row idx) \<Longrightarrow> joinKeyOf rt idx row = []"
  by (simp add: joinKeyOf_def)

text \<open>The join key of a row, cell by cell: the string itself, the printed number, the
  printed date, and the empty string for every falsy cell.\<close>

lemma joinKeyOf_stringified:
  "joinKeyOf rt idx row =
     (case cell_at row idx of
        CNull \<Rightarrow> []
      | CUndefined \<Rightarrow> []
      | CStr s \<Rightarrow> s
      | CNum n \<Rightarrow> if num_falsy rt n then [] else num_String rt n
      | CDate d \<Rightarrow> date_String rt d)"
  by (simp add: joinKeyOf_def Let_def split: cell.splits)

text \<open>
  Claim C10. The join key of a row is the stringified cell of the key column: a
  string is its own key, a number has the key \<^verbatim>\<open>String(n)\<close>, a date the key
  \<^verbatim>\<open>String(d)\<close>, and \<^verbatim>\<open>null\<close>, a missing cell, the empty string, zero and NaN have the
  empty key. When the join key is one of the headers, each side's lookup map is
  the function that sends a key to the last row of that side with this key, each
  key occurring once. Every row of the output is the merge of the last left row and
  the last right row of one key, no two rows of the output have the same key, and
  the count of dropped rows is the number of left keys without a match on the
  right for the inner join and \<open>0\<close> for the other joins: it does not depend on how
  many rows shared a key.
\<close>

theorem key_join_last_row_per_key:
  "indexOf headers jk = Some idx \<Longrightarrow>
     (\<forall>row. joinKeyOf rt idx row =
        (case cell_at row idx of
           CNull \<Rightarrow> []
         | CUndefined \<Rightarrow> []
         | CStr s \<Rightarrow> s
         | CNum n \<Rightarrow> if num_falsy rt n then [] else num_String rt n
         | CDate d \<Rightarrow> date_String rt d)) \<and>
     map_of (lookupMap rt idx leftData) = lastRow rt idx leftData \<and>
     map_of (lookupMap rt idx rightData) = lastRow rt idx rightData \<and>
     distinct (map fst (lookupMap rt idx leftData)) \<and>
     distinct (map fst (lookupMap rt idx rightData)) \<and>
     (\<forall>row. \<not> truthy rt (cell_at row idx) \<longrightarrow> joinKeyOf rt idx row = []) \<and>
     (\<forall>out \<in> set (jr_data (performKeyBasedJoin rt leftData rightData headers jk jt)).
        \<exists>key. out = mergeRows (lastRow rt idx leftData key) (lastRow rt idx rightData key) headers) \<and>
     distinct (map (joinKeyOf rt idx)
                 (jr_data (performKeyBasedJoin rt leftData rightData headers jk jt))) \<and>
     jr_droppedRows (performKeyBasedJoin rt leftData rightData headers jk jt) =
       (if jt = Inner then int (card (keysOf rt idx leftData - keysOf rt idx rightData)) else 0)"
  using joinKeyOf_stringified [of rt idx]
    lookupMap_map_of [of rt idx leftData] lookupMap_map_of [of rt idx rightData]
    lookupMap_distinct [of rt idx leftData] lookupMap_distinct [of rt idx rightData]
    falsy_key_empty [of rt _ idx]
    join_rows_last [of headers jk idx _ rt leftData rightData jt]
    join_keys_distinct [of headers jk idx rt leftData rightData jt]
    join_dropped [of headers jk idx rt leftData rightData jt]
  by (intro conjI ballI allI impI ext) blast+

theorem key_join_last_row_per_key_witness:
  "indexOf [''k'', ''v''] ''k'' = Some 0 \<and>
   lastRow sample_runtime 0 ordersLeft ''1'' = Some [CStr ''1'', CStr ''b''] \<and>
   lastRow sample_runtime 0 ordersLeft [] = Some [CStr [], CStr ''e''] \<and>
   jr_data (performKeyBasedJoin sample_runtime ordersLeft ordersRight [''k'', ''v''] ''k'' Inner)
     = [[CStr ''1'', CStr ''b'']] \<and>
   distinct (map (joinKeyOf sample_runtime 0)
     (jr_data (performKeyBasedJoin sample_runtime ordersLeft ordersRight [''k'', ''v''] ''k'' Inner))) \<and>
   jr_droppedRows (performKeyBasedJoin sample_runtime ordersLeft ordersRight [''k'', ''v''] ''k'' Inner)
     = 1 \<and>
   \<not> truthy sample_runtime (cell_at [CNum 0, CStr ''z''] 0) \<and>
   joinKeyOf sample_runtime 0 [CNum 0, CStr ''z''] = [] \<and>
   joinKeyOf sample_runtime 0 [CNum 1, CStr ''a''] = ''1'' \<and>
   joinKeyOf sample_runtime 0 [CNum 2, CStr ''b''] = ''2'' \<and>
   joinKeyOf sample_runtime 0 [CNum 12, CStr ''c''] = ''12'' \<and>
   jr_data (performKeyBasedJoin sample_runtime numberedLeft numberedRight [''k'', ''v''] ''k'' Inner)
     = [[CNum 1, CStr ''a''], [CNum 2, CStr ''b'']] \<and>
   map (joinKeyOf sample_runtime 0)
     (jr_data (performKeyBasedJoin sample_runtime numberedLeft numberedRight [''k'', ''v''] ''k'' Inner))
     = [''1'', ''2''] \<and>
   jr_droppedRows (performKeyBasedJoin sample_runtime numberedLeft numberedRight [''k'', ''v''] ''k'' Inner)
     = 2"
proof -
  have h: "indexOf [''k'', ''v''] ''k'' = Some 0" by simp
  have l1: "lastRow sample_runtime 0 ordersLeft ''1'' = Some [CStr ''1'', CStr ''b'']"
    by (simp add: lastRow_def ordersLeft_def joinKeyOf_def cell_at_def)
  have l2: "lastRow sample_runtime 0 ordersLeft [] = Some [CStr [], CStr ''e'']"
    by (simp add: lastRow_def ordersLeft_def joinKeyOf_def cell_at_def)
  have d: "jr_data (performKeyBasedJoin sample_runtime ordersLeft ordersRight [''k'', ''v''] ''k'' Inner)
             = [[CStr ''1'', CStr ''b'']]"
    by (simp add: performKeyBasedJoin_def lookupMap_def ordersLeft_def ordersRight_def joinKeyOf_def
          cell_at_def mergeRows_def overlayLeft_def overlayRight_def)
  have k: "keysOf sample_runtime 0 ordersLeft - keysOf sample_runtime 0 ordersRight = {[]}"
    by (auto simp: keysOf_def ordersLeft_def ordersRight_def joinKeyOf_def cell_at_def)
  note t = key_join_last_row_per_key [OF h, of sample_runtime ordersLeft ordersRight Inner]
  note n = key_join_last_row_per_key [OF h, of sample_runtime numberedLeft numberedRight Inner]
  have p: "num_String sample_runtime 1 = ''1''" "num_String sample_runtime 2 = ''2''"
    "num_String sample_runtime 12 = ''12''" "num_String sample_runtime 7 = ''7''"
    by code_simp+
  have f: "num_falsy sample_runtime 0" "\<not> num_falsy sample_runtime 1" "\<not> num_falsy sample_runtime 2"
    "\<not> num_falsy sample_runtime 12" "\<not> num_falsy sample_runtime 7"
    by (simp_all add: sample_runtime_def)
  have z: "\<not> truthy sample_runtime (cell_at [CNum 0, CStr ''z''] 0)"
    by (simp add: cell_at_def f)
  from n have key: "joinKeyOf sample_runtime 0 row =
        (case cell_at row 0 of
           CNull \<Rightarrow> []
         | CUndefined \<Rightarrow> []
         | CStr s \<Rightarrow> s
         | CNum n \<Rightarrow> if num_falsy sample_runtime n then [] else num_String sample_runtime n
         | CDate d \<Rightarrow> date_String sample_runtime d)" for row
    by blast
  have k0: "joinKeyOf sample_runtime 0 [CNum 0, CStr ''z''] = []"
    using n z by blast
  have k1: "joinKeyOf sample_runtime 0 [CNum 1, CStr ''a''] = ''1''"
    by (simp add: key cell_at_def p f)
  have k2: "joinKeyOf sample_runtime 0 [CNum 2, CStr ''b''] = ''2''"
    by (simp add: key cell_at_def p f)
  have k12: "joinKeyOf sample_runtime 0 [CNum 12, CStr ''c''] = ''12''"
    by (simp add: key cell_at_def p f)
  have k1c: "joinKeyOf sample_runtime 0 [CNum 1, CStr ''c''] = ''1''"
    by (simp add: key cell_at_def p f)
  have k2d: "joinKeyOf sample_runtime 0 [CNum 2, CStr ''d''] = ''2''"
    by (simp add: key cell_at_def p f)
  have k7: "joinKeyOf sample_runtime 0 [CNum 7, CStr ''s''] = ''7''"
    by (simp add: key cell_at_def p f)
  have nd: "jr_data (performKeyBasedJoin sample_runtime numberedLeft numberedRight [''k'', ''v''] ''k'' Inner)
             = [[CNum 1, CStr ''a''], [CNum 2, CStr ''b'']]"
    by (simp add: performKeyBasedJoin_def lookupMap_def numberedLeft_def numberedRight_def
          k0 k1 k2 k1c k2d k7 mergeRows_def overlayLeft_def overlayRight_def)
  have nk: "keysOf sample_runtime 0 numberedLeft - keysOf sample_runtime 0 numberedRight = {[], ''7''}"
    by (auto simp: keysOf_def numberedLeft_def numberedRight_def k0 k1 k2 k1c k2d k7)
  from t have "distinct (map (joinKeyOf sample_runtime 0)
     (jr_data (performKeyBasedJoin sample_runtime ordersLeft ordersRight [''k'', ''v''] ''k'' Inner)))"
    by blast
  moreover from t have "jr_droppedRows (performKeyBasedJoin sample_runtime ordersLeft ordersRight [''k'', ''v''] ''k'' Inner) = 1"
    by (simp add: k)
  moreover from n have "jr_droppedRows (performKeyBasedJoin sample_runtime numberedLeft numberedRight [''k'', ''v''] ''k'' Inner) = 2"
    by (simp add: nk)
  ultimately show ?thesis using h l1 l2 d z k0 k1 k2 k12 nd by simp
qed

section \<open>The merge\<close>

lemma length_alignDataToSchema: "length (alignDataToSchema rows hs us) = length rows"
  by (simp add: alignDataToSchema_def)

text \<open>
  The row limit on a single file without duplicate handling: the result holds the
  first \<open>m\<close> aligned rows and the rows beyond them are counted as dropped. Here the
  number of input rows is the number of merged rows before the limit applies.
\<close>

lemma performMerge_single_file_limit:
  assumes "handleDuplicatesOpt options = Keep_first" and "maxRows options = Some m"
    and "0 < m" and "m < int (length (t_data tf))"
  shows "\<exists>r. performMerge rt [tf] unifiedHeaders options = Inr r \<and>
           pm_data r = take (nat m) (alignDataToSchema (t_data tf) (t_headers tf) unifiedHeaders) \<and>
           mergedRows (pm_stats r) = m \<and>
           droppedRows (pm_stats r) = int (length (t_data tf)) - m"
  using assms
  by (auto simp: performMerge_def finishMerge_def concatStep_def slice0_def
        length_alignDataToSchema Let_def min_def)

text \<open>
  Claim C1, as the code has it. In the inner join of the left rows \<open>{k: 1, v: a}\<close>
  with the right rows \<open>{k: 1, v: b}\<close>, \<open>{k: 2, v: c}\<close> on the key \<open>k\<close>, the merge returns
  the one row \<open>{k: 1, v: a}\<close> and counts no dropped row: only left keys without a
  match on the right are counted, and the left side has none.
\<close>

theorem inner_join_example:
  "let r = mergeFiles sample_runtime sample_clock [leftFile, rightFile]
             [keepAll ''L'' [''k'', ''v''], keepAll ''R'' [''k'', ''v'']] (joinOn Inner ''k'' None)
   in errors r = [] \<and> warnings r = [] \<and> ds_headers (dataset r) = [''k'', ''v''] \<and>
      map (\<lambda>record. map record [''k'', ''v'']) (ds_data (dataset r))
        = [[Some (CStr ''1''), Some (CStr ''a'')]] \<and>
      ds_rowCount (dataset r) = 1 \<and>
      stats r = \<lparr> totalRows = 3, mergedRows = 1, droppedRows = 0, duplicateRows = 0,
                  nullValues = 0 \<rparr>"
  by code_simp

text \<open>Claim C1 as stated fails: the count of dropped rows of that merge is not \<open>1\<close>.\<close>

theorem inner_join_dropped_counterexample:
  "mergedRows (stats (mergeFiles sample_runtime sample_clock [leftFile, rightFile]
      [keepAll ''L'' [''k'', ''v''], keepAll ''R'' [''k'', ''v'']] (joinOn Inner ''k'' None))) = 1 \<and>
   droppedRows (stats (mergeFiles sample_runtime sample_clock [leftFile, rightFile]
      [keepAll ''L'' [''k'', ''v''], keepAll ''R'' [''k'', ''v'']] (joinOn Inner ''k'' None))) \<noteq> 1"
  by code_simp

text \<open>
  Claim C2 at an inner join of the keys \<open>1\<close>, \<open>2\<close>, \<open>3\<close> with the keys \<open>1\<close>, \<open>2\<close>. Without a
  row limit the merge has two rows and one dropped row. With a limit of one row the
  truncation removes one row, and the code adds the five input rows less the limit
  to the count, which becomes \<open>5\<close>, the number of all input rows.
\<close>

theorem maxRows_adds_input_rows:
  "stats (mergeFiles sample_runtime sample_clock [threeKeys, twoKeys]
            [keepAll ''L'' [''k''], keepAll ''R'' [''k'']] (joinOn Inner ''k'' None))
     = \<lparr> totalRows = 5, mergedRows = 2, droppedRows = 1, duplicateRows = 0, nullValues = 0 \<rparr> \<and>
   stats (mergeFiles sample_runtime sample_clock [threeKeys, twoKeys]
            [keepAll ''L'' [''k''], keepAll ''R'' [''k'']] (joinOn Inner ''k'' (Some 1)))
     = \<lparr> totalRows = 5, mergedRows = 1, droppedRows = 5, duplicateRows = 0, nullValues = 0 \<rparr>"
  by code_simp

text \<open>
  Claim C5. \<^verbatim>\<open>mergeFiles\<close> is a total function into the merge results. Whenever the
  body of its \<^verbatim>\<open>try\<close> block throws, the result carries the message of the exception
  as its only error, the warnings pushed until then, and an empty dataset with
  statistics of \<open>0\<close>; otherwise it carries the dataset and statistics computed and
  no error. An empty list of files and an empty list of mappings are reported with
  their messages in this way.
\<close>

theorem mergeFiles_never_raises:
  "(case mergeFiles_try rt clk files maps options of
      (ws, Inl e) \<Rightarrow>
        errors (mergeFiles rt clk files maps options) = [message e] \<and>
        warnings (mergeFiles rt clk files maps options) = ws \<and>
        emptyResult (mergeFiles rt clk files maps options)
    | (ws, Inr (ds, st)) \<Rightarrow>
        mergeFiles rt clk files maps options
          = \<lparr> dataset = ds, stats = st, warnings = ws, errors = [] \<rparr>) \<and>
   (files = [] \<longrightarrow>
      errors (mergeFiles rt clk files maps options) = [''No files provided for merging''] \<and>
      emptyResult (mergeFiles rt clk files maps options)) \<and>
   (files \<noteq> [] \<and> maps = [] \<longrightarrow>
      errors (mergeFiles rt clk files maps options) = [''No column mappings provided''] \<and>
      emptyResult (mergeFiles rt clk files maps options))"
  by (auto simp: mergeFiles_def emptyResult_def mergeFiles_try_def split: prod.splits sum.splits)

theorem mergeFiles_never_raises_witness:
  "errors (mergeFiles sample_runtime sample_clock [] [keepAll ''L'' [''k'']] (joinOn Inner ''k'' None))
     = [''No files provided for merging''] \<and>
   emptyResult (mergeFiles sample_runtime sample_clock [] [keepAll ''L'' [''k'']] (joinOn Inner ''k'' None)) \<and>
   [leftFile] \<noteq> [] \<and>
   errors (mergeFiles sample_runtime sample_clock [leftFile] [] (joinOn Inner ''k'' None))
     = [''No column mappings provided''] \<and>
   emptyResult (mergeFiles sample_runtime sample_clock [leftFile] [] (joinOn Inner ''k'' None)) \<and>
   mergeFiles_try sample_runtime sample_clock [datedFile] [formatDates] (joinOn Inner ''d'' None)
     = ([], Inl (Error ''Invalid time value'')) \<and>
   errors (mergeFiles sample_runtime sample_clock [datedFile] [formatDates] (joinOn Inner ''d'' None))
     = [''Invalid time value''] \<and>
   emptyResult (mergeFiles sample_runtime sample_clock [datedFile] [formatDates] (joinOn Inner ''d'' None))"
proof -
  have t: "mergeFiles_try sample_runtime sample_clock [datedFile] [formatDates] (joinOn Inner ''d'' None)
             = ([], Inl (Error ''Invalid time value''))"
    by (simp add: mergeFiles_try_def datedFile_def formatDates_def fileOf_def parsed_def
          mappingOf_def transformData_def transformCell_def columnIndexMap_def cell_at_def
          formatString_def sample_runtime_def)
  from mergeFiles_never_raises [of sample_runtime sample_clock "[]" "[keepAll ''L'' [''k'']]"
         "joinOn Inner ''k'' None"]
       mergeFiles_never_raises [of sample_runtime sample_clock "[leftFile]" "[]"
         "joinOn Inner ''k'' None"]
       mergeFiles_never_raises [of sample_runtime sample_clock "[datedFile]" "[formatDates]"
         "joinOn Inner ''d'' None"]
  show ?thesis by (simp add: t)
qed

text \<open>
  Claim C9. The result of \<^verbatim>\<open>mergeFiles\<close> depends on the clock in the id of the
  dataset and in its creation time only: two runs on the same files, mappings and
  options, at whatever times, return the same headers, rows, row count, column
  types, source files, name, statistics, warnings and errors.
\<close>

theorem mergeFiles_clock_independent:
  "ds_headers (dataset (mergeFiles rt clk1 files maps options))
     = ds_headers (dataset (mergeFiles rt clk2 files maps options)) \<and>
   ds_data (dataset (mergeFiles rt clk1 files maps options))
     = ds_data (dataset (mergeFiles rt clk2 files maps options)) \<and>
   ds_rowCount (dataset (mergeFiles rt clk1 files maps options))
     = ds_rowCount (dataset (mergeFiles rt clk2 files maps options)) \<and>
   ds_columnTypes (dataset (mergeFiles rt clk1 files maps options))
     = ds_columnTypes (dataset (mergeFiles rt clk2 files maps options)) \<and>
   sourceFiles (dataset (mergeFiles rt clk1 files maps options))
     = sourceFiles (dataset (mergeFiles rt clk2 files maps options)) \<and>
   ds_name (dataset (mergeFiles rt clk1 files maps options))
     = ds_name (dataset (mergeFiles rt clk2 files maps options)) \<and>
   stats (mergeFiles rt clk1 files maps options) = stats (mergeFiles rt clk2 files maps options) \<and>
   warnings (mergeFiles rt clk1 files maps options) = warnings (mergeFiles rt clk2 files maps options) \<and>
   errors (mergeFiles rt clk1 files maps options) = errors (mergeFiles rt clk2 files maps options)"
  by (simp add: mergeFiles_def mergeFiles_try_def Let_def split: prod.splits sum.splits)


end
